theory Spec2Isabelle
  imports Main
begin

section \<open>Python values used by \<^verbatim>\<open>rocket_engine/storage.py\<close>\<close>

text \<open>
  Python 2 strings (names, header values and the bytes of a blob alike) are lists of
  characters. The exceptions the module raises, and the ones raised by the library
  calls it makes, are the values of one datatype; a function that can raise returns
  \<open>error + 'a\<close> with \<open>Inl\<close> for the exception.
\<close>

type_synonym bytes = string

datatype error =
    ValueError
  | AttributeError
  | TypeError
  | NotImplementedError
  | EntityNotFoundError
  | BlobNotFoundError
  | ExistenceError
  | ImproperlyConfigured
  | StopFutureHandlers
  | BadHeaderError

subsection \<open>String methods\<close>

text \<open>\<^verbatim>\<open>s.replace('\\', '/')\<close>: both arguments are one character long, so the
  replacement works character by character.\<close>

definition backslash :: char where
  "backslash = CHR 0x5C"

definition slash :: char where
  "slash = CHR ''/''"

definition replace_backslash :: "string \<Rightarrow> string" where
  "replace_backslash s = map (\<lambda>c. if c = backslash then slash else c) s"

text \<open>\<^verbatim>\<open>s.lstrip('/')\<close> drops every leading slash.\<close>

definition lstrip_slash :: "string \<Rightarrow> string" where
  "lstrip_slash s = dropWhile (\<lambda>c. c = slash) s"

text \<open>\<^verbatim>\<open>s.split('/', 1)[0]\<close> is the part of \<open>s\<close> before its first slash, and all
  of \<open>s\<close> when it has none.\<close>

definition split_first :: "string \<Rightarrow> string" where
  "split_first s = takeWhile (\<lambda>c. c \<noteq> slash) s"

text \<open>\<^verbatim>\<open>u.strip()\<close> on a unicode string removes leading and trailing whitespace.
  Among the code points a \<open>char\<close> can hold, Python 2 counts as whitespace 9 to 13,
  28 to 32, 133 and 160.\<close>

definition isspace :: "char \<Rightarrow> bool" where
  "isspace c =
     (let n = (of_char c :: nat)
      in (9 \<le> n \<and> n \<le> 13) \<or> (28 \<le> n \<and> n \<le> 32) \<or> n = 133 \<or> n = 160)"

definition strip :: "string \<Rightarrow> string" where
  "strip s = rev (dropWhile isspace (rev (dropWhile isspace s)))"

text \<open>\<^verbatim>\<open>force_unicode(name)\<close> decodes a byte string and leaves a unicode string as it
  is; names are unicode strings here.\<close>

definition force_unicode :: "string \<Rightarrow> string" where
  "force_unicode s = s"

section \<open>The App Engine Blobstore, as the module uses it\<close>

text \<open>
  The module imports \<^verbatim>\<open>BlobKey\<close>, \<^verbatim>\<open>BlobInfo\<close> and \<^verbatim>\<open>BlobReader\<close> from the
  App Engine SDK. A \<^verbatim>\<open>BlobKey\<close> wraps the key string, and \<^verbatim>\<open>str\<close> gives the string
  back. The SDK refuses a key string that is empty or longer than 1500 bytes with
  \<^verbatim>\<open>BadValueError\<close>. This check is left out of the definitions below: keys range over
  the strings the SDK accepts, which \<open>accepted_key_string\<close> describes, and a statement
  about a key string that comes from the caller assumes it.

  The Blobstore holds, per key, a datastore entity with the metadata of the blob and the
  bytes of the blob.
\<close>

datatype BlobKey = BlobKey (str_of: string)

definition accepted_key_string :: "string \<Rightarrow> bool" where
  "accepted_key_string s = (s \<noteq> [] \<and> length s \<le> 1500)"

record blob_entity =
  entity_content_type :: string
  entity_filename :: string
  entity_size :: int

record blobstore =
  entities :: "BlobKey \<rightharpoonup> blob_entity"
  blobs :: "BlobKey \<rightharpoonup> bytes"

text \<open>
  A \<^verbatim>\<open>BlobInfo\<close> is made either from an entity (\<^verbatim>\<open>BlobInfo.get\<close> does so) or from a key
  alone (\<^verbatim>\<open>BlobInfo(key)\<close>); in the second case the entity is fetched when a property
  is first read, and that read raises \<^verbatim>\<open>EntityNotFoundError\<close> when the datastore has
  no entity for the key. \<^verbatim>\<open>BlobInfo.get\<close> returns \<^verbatim>\<open>None\<close> for a key without entity.
\<close>

datatype BlobInfo = BlobInfo (info_key: BlobKey) (info_entity: "blob_entity option")

definition BlobInfo_get :: "blobstore \<Rightarrow> BlobKey \<Rightarrow> BlobInfo option" where
  "BlobInfo_get bs k =
     (case entities bs k of None \<Rightarrow> None | Some e \<Rightarrow> Some (BlobInfo k (Some e)))"

definition BlobInfo_of_key :: "BlobKey \<Rightarrow> BlobInfo" where
  "BlobInfo_of_key k = BlobInfo k None"

definition BlobInfo_entity :: "blobstore \<Rightarrow> BlobInfo \<Rightarrow> error + blob_entity" where
  "BlobInfo_entity bs bi =
     (case info_entity bi of
        Some e \<Rightarrow> Inr e
      | None \<Rightarrow>
          (case entities bs (info_key bi) of
             None \<Rightarrow> Inl EntityNotFoundError
           | Some e \<Rightarrow> Inr e))"

text \<open>The properties \<^verbatim>\<open>size\<close>, \<^verbatim>\<open>content_type\<close> and \<^verbatim>\<open>filename\<close> of a \<^verbatim>\<open>BlobInfo\<close>.\<close>

definition BlobInfo_size :: "blobstore \<Rightarrow> BlobInfo \<Rightarrow> error + int" where
  "BlobInfo_size bs bi =
     (case BlobInfo_entity bs bi of Inl x \<Rightarrow> Inl x | Inr e \<Rightarrow> Inr (entity_size e))"

definition BlobInfo_content_type :: "blobstore \<Rightarrow> BlobInfo \<Rightarrow> error + string" where
  "BlobInfo_content_type bs bi =
     (case BlobInfo_entity bs bi of Inl x \<Rightarrow> Inl x | Inr e \<Rightarrow> Inr (entity_content_type e))"

definition BlobInfo_filename :: "blobstore \<Rightarrow> BlobInfo \<Rightarrow> error + string" where
  "BlobInfo_filename bs bi =
     (case BlobInfo_entity bs bi of Inl x \<Rightarrow> Inl x | Inr e \<Rightarrow> Inr (entity_filename e))"

text \<open>
  A \<^verbatim>\<open>BlobReader\<close> is a file-like object over the bytes of a blob. Making one does not
  touch the Blobstore; \<^verbatim>\<open>read(size)\<close> fetches the bytes, raises \<^verbatim>\<open>BlobNotFoundError\<close>
  when the blob does not exist, returns at most \<open>size\<close> bytes from the cursor on (all
  the remaining bytes when \<open>size\<close> is negative) and moves the cursor past them.
\<close>

record BlobReader =
  reader_key :: BlobKey
  reader_pos :: nat

definition BlobReader_init :: "BlobKey \<Rightarrow> BlobReader" where
  "BlobReader_init k = \<lparr>reader_key = k, reader_pos = 0\<rparr>"

definition BlobReader_seek :: "BlobReader \<Rightarrow> nat \<Rightarrow> BlobReader" where
  "BlobReader_seek r p = r\<lparr>reader_pos := p\<rparr>"

definition BlobReader_read :: "blobstore \<Rightarrow> BlobReader \<Rightarrow> int \<Rightarrow> error + (bytes \<times> BlobReader)" where
  "BlobReader_read bs r n =
     (case blobs bs (reader_key r) of
        None \<Rightarrow> Inl BlobNotFoundError
      | Some b \<Rightarrow>
          (let rest = drop (reader_pos r) b;
               content = (if n < 0 then rest else take (nat n) rest)
           in Inr (content, r\<lparr>reader_pos := reader_pos r + length content\<rparr>)))"

section \<open>File objects as the module probes them\<close>

text \<open>
  \<^verbatim>\<open>serve_file\<close> and \<^verbatim>\<open>_save\<close> take any Python object and look at its attributes with
  \<^verbatim>\<open>hasattr\<close>. An object is given by what these functions read of it: the attribute
  \<^verbatim>\<open>file\<close> (absent, or an object that may have a \<^verbatim>\<open>blobstore_info\<close>), the attribute
  \<^verbatim>\<open>blobstore_info\<close> (absent, or a value) and the attribute \<^verbatim>\<open>size\<close> (\<^verbatim>\<open>None\<close> or an
  integer). The value of a \<^verbatim>\<open>blobstore_info\<close> attribute is a \<^verbatim>\<open>BlobInfo\<close>, a \<^verbatim>\<open>BlobKey\<close>,
  \<^verbatim>\<open>None\<close> or something else.
\<close>

datatype py_value = BlobInfoVal BlobInfo | BlobKeyVal BlobKey | NoneVal | OtherVal

record inner_file =
  inner_blobstore_info :: "py_value option"

record file_object =
  file_attr :: "inner_file option"
  blobstore_info_attr :: "py_value option"
  size_attr :: "int option"

text \<open>
  The test both functions start with:
  \<^verbatim>\<open>if hasattr(x, 'file') and hasattr(x.file, 'blobstore_info'): ... x.file.blobstore_info\<close>
  \<^verbatim>\<open>elif hasattr(x, 'blobstore_info'): ... x.blobstore_info\<close>
  \<^verbatim>\<open>else: raise ValueError\<close>.
  The result is the value the first two branches pick, \<open>None\<close> in the third.
\<close>

definition probe_blobstore_info :: "file_object \<Rightarrow> py_value option" where
  "probe_blobstore_info x =
     (case file_attr x of
        None \<Rightarrow> blobstore_info_attr x
      | Some f \<Rightarrow>
          (case inner_blobstore_info f of
             None \<Rightarrow> blobstore_info_attr x
           | Some v \<Rightarrow> Some v))"

section \<open>\<^verbatim>\<open>BlobstoreStorage\<close> and \<^verbatim>\<open>BlobstoreFile\<close>\<close>

definition get_valid_name :: "string \<Rightarrow> string" where
  "get_valid_name name = replace_backslash (strip (force_unicode name))"

definition get_available_name :: "string \<Rightarrow> string" where
  "get_available_name name = replace_backslash name"

definition get_key :: "string \<Rightarrow> BlobKey" where
  "get_key name = BlobKey (split_first name)"

definition get_blobinfo :: "blobstore \<Rightarrow> string \<Rightarrow> BlobInfo option" where
  "get_blobinfo bs name = BlobInfo_get bs (get_key name)"

text \<open>\<^verbatim>\<open>_save\<close>: \<^verbatim>\<open>'%s/%s' % (data, name.lstrip('/'))\<close> formats the key with \<^verbatim>\<open>str\<close>.\<close>

definition BlobstoreStorage_save :: "string \<Rightarrow> file_object \<Rightarrow> error + string" where
  "BlobstoreStorage_save name0 content =
     (let name = replace_backslash name0
      in case probe_blobstore_info content of
           None \<Rightarrow> Inl ValueError
         | Some (BlobInfoVal bi) \<Rightarrow> Inr (str_of (info_key bi) @ [slash] @ lstrip_slash name)
         | Some (BlobKeyVal k) \<Rightarrow> Inr (str_of k @ [slash] @ lstrip_slash name)
         | Some _ \<Rightarrow> Inl ValueError)"

text \<open>\<^verbatim>\<open>delete\<close> hands the key to the Blobstore, which forgets the blob.\<close>

definition BlobstoreStorage_delete :: "blobstore \<Rightarrow> string \<Rightarrow> blobstore" where
  "BlobstoreStorage_delete bs name =
     bs\<lparr>entities := (entities bs)(get_key name := None),
        blobs := (blobs bs)(get_key name := None)\<rparr>"

definition BlobstoreStorage_exists :: "blobstore \<Rightarrow> string \<Rightarrow> bool" where
  "BlobstoreStorage_exists bs name = (get_blobinfo bs name \<noteq> None)"

text \<open>\<^verbatim>\<open>size\<close> reads the attribute \<^verbatim>\<open>size\<close> of what \<^verbatim>\<open>_get_blobinfo\<close> returned; on \<^verbatim>\<open>None\<close>
  that is an \<^verbatim>\<open>AttributeError\<close>.\<close>

definition BlobstoreStorage_size :: "blobstore \<Rightarrow> string \<Rightarrow> error + int" where
  "BlobstoreStorage_size bs name =
     (case get_blobinfo bs name of
        None \<Rightarrow> Inl AttributeError
      | Some bi \<Rightarrow> BlobInfo_size bs bi)"

definition BlobstoreStorage_url :: "string \<Rightarrow> error + string" where
  "BlobstoreStorage_url name = Inl NotImplementedError"

text \<open>
  A \<^verbatim>\<open>BlobstoreFile\<close> keeps its name, its mode and what \<^verbatim>\<open>_get_blobinfo\<close> returned for the
  name; the constructor has no check. The property \<^verbatim>\<open>file\<close> makes the reader on first
  use and keeps it in \<^verbatim>\<open>_file\<close>.
\<close>

record BlobstoreFile =
  bf_name :: string
  bf_mode :: string
  bf_blobstore_info :: "BlobInfo option"
  bf_file :: "BlobReader option"

definition BlobstoreFile_init :: "string \<Rightarrow> string \<Rightarrow> blobstore \<Rightarrow> BlobstoreFile" where
  "BlobstoreFile_init name mode bs =
     \<lparr>bf_name = name, bf_mode = mode, bf_blobstore_info = get_blobinfo bs name,
      bf_file = None\<rparr>"

definition BlobstoreFile_size :: "blobstore \<Rightarrow> BlobstoreFile \<Rightarrow> error + int" where
  "BlobstoreFile_size bs f =
     (case bf_blobstore_info f of
        None \<Rightarrow> Inl AttributeError
      | Some bi \<Rightarrow> BlobInfo_size bs bi)"

definition BlobstoreFile_write :: "BlobstoreFile \<Rightarrow> bytes \<Rightarrow> error + unit" where
  "BlobstoreFile_write f content = Inl NotImplementedError"

definition BlobstoreFile_file :: "BlobstoreFile \<Rightarrow> error + (BlobReader \<times> BlobstoreFile)" where
  "BlobstoreFile_file f =
     (case bf_file f of
        Some r \<Rightarrow> Inr (r, f)
      | None \<Rightarrow>
          (case bf_blobstore_info f of
             None \<Rightarrow> Inl AttributeError
           | Some bi \<Rightarrow>
               (let r = BlobReader_init (info_key bi)
                in Inr (r, f\<lparr>bf_file := Some r\<rparr>))))"

text \<open>\<^verbatim>\<open>_open\<close> returns the new \<^verbatim>\<open>BlobstoreFile\<close>; nothing in it raises.\<close>

definition BlobstoreStorage_open :: "blobstore \<Rightarrow> string \<Rightarrow> string \<Rightarrow> error + BlobstoreFile" where
  "BlobstoreStorage_open bs name mode = Inr (BlobstoreFile_init name mode bs)"

text \<open>What the claims call a content object that carries a Blob Reference: the probe
  finds a \<^verbatim>\<open>BlobInfo\<close> or a \<^verbatim>\<open>BlobKey\<close>, the two classes \<^verbatim>\<open>_save\<close> accepts.\<close>

definition carries_blob_reference :: "file_object \<Rightarrow> bool" where
  "carries_blob_reference x =
     (case probe_blobstore_info x of
        Some (BlobInfoVal bi) \<Rightarrow> True
      | Some (BlobKeyVal k) \<Rightarrow> True
      | _ \<Rightarrow> False)"

section \<open>\<^verbatim>\<open>serve_file\<close>\<close>

text \<open>
  The request is read through \<^verbatim>\<open>request.META.get('HTTP_RANGE')\<close> only. The response
  keeps its content type and its headers; a header value is the string or the integer
  the function assigns. \<^verbatim>\<open>BLOB_KEY_HEADER\<close> and \<^verbatim>\<open>BLOB_RANGE_HEADER\<close> are constants of
  the SDK. \<^verbatim>\<open>save_as\<close> is \<open>None\<close> for a value that is not a string (\<^verbatim>\<open>False\<close>, \<^verbatim>\<open>None\<close>);
  \<^verbatim>\<open>if save_as:\<close> holds for a string that is not empty.

  Django's \<^verbatim>\<open>response[header] = value\<close> raises \<^verbatim>\<open>BadHeaderError\<close> when the header or the
  value contains a carriage return or a line feed. The constructor
  \<^verbatim>\<open>HttpResponse(content_type=...)\<close> assigns the content type as a header in the same
  way.
\<close>

record request =
  META :: "string \<rightharpoonup> string"

datatype header_value = Str string | Num int

record HttpResponse =
  resp_content_type :: "string option"
  headers :: "string \<rightharpoonup> header_value"

definition BLOB_KEY_HEADER :: string where
  "BLOB_KEY_HEADER = ''X-AppEngine-BlobKey''"

definition BLOB_RANGE_HEADER :: string where
  "BLOB_RANGE_HEADER = ''X-AppEngine-BlobRange''"

definition has_newline :: "string \<Rightarrow> bool" where
  "has_newline s = (CHR 0x0A \<in> set s \<or> CHR 0x0D \<in> set s)"

definition HttpResponse_init :: "string option \<Rightarrow> error + HttpResponse" where
  "HttpResponse_init content_type =
     (case content_type of
        None \<Rightarrow> Inr \<lparr>resp_content_type = content_type, headers = Map.empty\<rparr>
      | Some ct \<Rightarrow>
          if has_newline ct then Inl BadHeaderError
          else Inr \<lparr>resp_content_type = content_type, headers = Map.empty\<rparr>)"

definition set_header :: "HttpResponse \<Rightarrow> string \<Rightarrow> header_value \<Rightarrow> error + HttpResponse" where
  "set_header r h v =
     (if has_newline h \<or> (case v of Str s \<Rightarrow> has_newline s | Num z \<Rightarrow> False)
      then Inl BadHeaderError
      else Inr (r\<lparr>headers := (headers r)(h \<mapsto> v)\<rparr>))"

text \<open>The method \<^verbatim>\<open>key()\<close> exists on a \<^verbatim>\<open>BlobInfo\<close> only.\<close>

definition key_method :: "py_value \<Rightarrow> error + BlobKey" where
  "key_method v = (case v of BlobInfoVal bi \<Rightarrow> Inr (info_key bi) | _ \<Rightarrow> Inl AttributeError)"

definition serve_file ::
  "request \<Rightarrow> file_object \<Rightarrow> string option \<Rightarrow> string option \<Rightarrow> error + HttpResponse" where
  "serve_file req file save_as content_type =
     (case probe_blobstore_info file of
        None \<Rightarrow> Inl ValueError
      | Some v \<Rightarrow>
     (case key_method v of
        Inl e \<Rightarrow> Inl e
      | Inr blobkey \<Rightarrow>
     (case HttpResponse_init content_type of
        Inl e \<Rightarrow> Inl e
      | Inr r0 \<Rightarrow>
     (case set_header r0 BLOB_KEY_HEADER (Str (str_of blobkey)) of
        Inl e \<Rightarrow> Inl e
      | Inr r1 \<Rightarrow>
     (case set_header r1 ''Accept-Ranges'' (Str ''bytes'') of
        Inl e \<Rightarrow> Inl e
      | Inr r2 \<Rightarrow>
     (case (case META req ''HTTP_RANGE'' of
              None \<Rightarrow> Inr r2
            | Some http_range \<Rightarrow> set_header r2 BLOB_RANGE_HEADER (Str http_range)) of
        Inl e \<Rightarrow> Inl e
      | Inr r3 \<Rightarrow>
     (case (case save_as of
              None \<Rightarrow> Inr r3
            | Some n \<Rightarrow>
                if n \<noteq> []
                then set_header r3 ''Content-Disposition'' (Str (''attachment; filename='' @ n))
                else Inr r3) of
        Inl e \<Rightarrow> Inl e
      | Inr r4 \<Rightarrow>
     (case size_attr file of
        None \<Rightarrow> Inr r4
      | Some z \<Rightarrow> set_header r4 ''Content-Length'' (Num z)))))))))"

text \<open>
  The header values \<^verbatim>\<open>serve_file\<close> takes from its arguments: the key of the blob, the
  range of the request, the display name and the content type. \<open>no_newline\<close> says that
  an optional one is absent or free of carriage returns and line feeds.
\<close>

definition no_newline :: "string option \<Rightarrow> bool" where
  "no_newline x = (case x of None \<Rightarrow> True | Some s \<Rightarrow> \<not> has_newline s)"

definition values_clean :: "request \<Rightarrow> BlobInfo \<Rightarrow> string option \<Rightarrow> bool" where
  "values_clean req bi save_as =
     (\<not> has_newline (str_of (info_key bi)) \<and>
      no_newline (META req ''HTTP_RANGE'') \<and>
      no_newline save_as)"

section \<open>\<^verbatim>\<open>BlobstoreUploadedFile\<close>\<close>

text \<open>
  The constructor hands a new reader and the blob's \<^verbatim>\<open>filename\<close>, \<^verbatim>\<open>content_type\<close> and
  \<^verbatim>\<open>size\<close> to \<^verbatim>\<open>UploadedFile.__init__\<close>. Reading \<^verbatim>\<open>filename\<close> fetches the entity of a
  \<^verbatim>\<open>BlobInfo\<close> made from a key, or raises; from then on the \<^verbatim>\<open>BlobInfo\<close> holds the entity
  and the other two properties are read from it.
\<close>

record BlobstoreUploadedFile =
  uf_file :: BlobReader
  uf_name :: string
  uf_content_type :: string
  uf_size :: int
  uf_charset :: "string option"
  uf_blobstore_info :: BlobInfo

definition BlobstoreUploadedFile_init ::
  "blobstore \<Rightarrow> BlobInfo \<Rightarrow> string option \<Rightarrow> error + BlobstoreUploadedFile" where
  "BlobstoreUploadedFile_init bs blobinfo charset =
     (case BlobInfo_entity bs blobinfo of
        Inl x \<Rightarrow> Inl x
      | Inr e \<Rightarrow>
          Inr \<lparr>uf_file = BlobReader_init (info_key blobinfo),
               uf_name = entity_filename e,
               uf_content_type = entity_content_type e,
               uf_size = entity_size e,
               uf_charset = charset,
               uf_blobstore_info = BlobInfo (info_key blobinfo) (Some e)\<rparr>)"

text \<open>
  \<^verbatim>\<open>chunks\<close>: after \<^verbatim>\<open>self.file.seek(0)\<close> the loop reads \<open>chunk_size\<close> bytes at a time
  (\<^verbatim>\<open>self.read\<close> is the reader's \<^verbatim>\<open>read\<close>) and stops at the first empty read. The
  generator's chunks are collected in a list, returned with the reader as the loop left
  it.
\<close>

function chunks_loop ::
  "blobstore \<Rightarrow> BlobReader \<Rightarrow> int \<Rightarrow> error + (bytes list \<times> BlobReader)" where
  "chunks_loop bs r chunk_size =
     (case BlobReader_read bs r chunk_size of
        Inl e \<Rightarrow> Inl e
      | Inr (content, r') \<Rightarrow>
          if content = [] then Inr ([], r')
          else (case chunks_loop bs r' chunk_size of
                  Inl e \<Rightarrow> Inl e
                | Inr (cs, r'') \<Rightarrow> Inr (content # cs, r'')))"
  by pat_completeness auto
termination
proof (relation "measure (\<lambda>(bs, r, c).
    case blobs bs (reader_key r) of None \<Rightarrow> 0 | Some b \<Rightarrow> length b - reader_pos r)")
  show "wf (measure (\<lambda>(bs, r, c).
    case blobs bs (reader_key r) of None \<Rightarrow> 0 | Some b \<Rightarrow> length b - reader_pos r))"
    by simp
next
  fix bs :: blobstore and r :: BlobReader and chunk_size :: int
    and x :: "bytes \<times> BlobReader" and content :: bytes and r' :: BlobReader
  assume rd: "BlobReader_read bs r chunk_size = Inr x"
    and x: "(content, r') = x"
    and ne: "content \<noteq> []"
  from rd x obtain b where b: "blobs bs (reader_key r) = Some b"
    by (auto simp: BlobReader_read_def split: option.splits)
  from rd x b have c: "content = (if chunk_size < 0 then drop (reader_pos r) b
                                  else take (nat chunk_size) (drop (reader_pos r) b))"
    and r': "r' = r\<lparr>reader_pos := reader_pos r + length content\<rparr>"
    by (auto simp: BlobReader_read_def Let_def)
  from c ne have "reader_pos r < length b"
    by (auto split: if_splits)
  moreover from ne obtain y ys where "content = y # ys"
    by (cases content) auto
  ultimately show "((bs, r', chunk_size), (bs, r, chunk_size)) \<in> measure (\<lambda>(bs, r, c).
    case blobs bs (reader_key r) of None \<Rightarrow> 0 | Some b \<Rightarrow> length b - reader_pos r)"
    using b r' by simp
qed

declare chunks_loop.simps [simp del]

definition BlobstoreUploadedFile_chunks ::
  "blobstore \<Rightarrow> BlobstoreUploadedFile \<Rightarrow> int \<Rightarrow> error + (bytes list \<times> BlobstoreUploadedFile)" where
  "BlobstoreUploadedFile_chunks bs f chunk_size =
     (case chunks_loop bs (BlobReader_seek (uf_file f) 0) chunk_size of
        Inl e \<Rightarrow> Inl e
      | Inr (cs, r) \<Rightarrow> Inr (cs, f\<lparr>uf_file := r\<rparr>))"

definition multiple_chunks :: "BlobstoreUploadedFile \<Rightarrow> int \<Rightarrow> bool" where
  "multiple_chunks f chunk_size = True"

section \<open>\<^verbatim>\<open>BlobstoreFileUploadHandler\<close>\<close>

text \<open>
  The handler's attributes: the ones \<^verbatim>\<open>FileUploadHandler.new_file\<close> stores from its
  arguments, and \<^verbatim>\<open>active\<close> and \<^verbatim>\<open>blobkey\<close>, which do not exist (\<open>None\<close>) until
  \<^verbatim>\<open>new_file\<close> assigns them. \<^verbatim>\<open>content_type_extra\<close> is a dictionary, or \<^verbatim>\<open>None\<close> when the
  caller left it out. \<^verbatim>\<open>new_file\<close> returns the handler as it leaves it, together with
  the exception it raised or \<open>()\<close>.
\<close>

record new_file_args =
  arg_field_name :: string
  arg_file_name :: string
  arg_content_type :: string
  arg_content_length :: "int option"
  arg_charset :: "string option"
  arg_content_type_extra :: "(string \<rightharpoonup> string) option"

record BlobstoreFileUploadHandler =
  h_field_name :: "string option"
  h_file_name :: "string option"
  h_content_type :: "string option"
  h_content_length :: "int option"
  h_charset :: "string option"
  h_content_type_extra :: "(string \<rightharpoonup> string) option"
  h_active :: "bool option"
  h_blobkey :: "BlobKey option"

definition super_new_file ::
  "BlobstoreFileUploadHandler \<Rightarrow> new_file_args \<Rightarrow> BlobstoreFileUploadHandler" where
  "super_new_file h a =
     h\<lparr>h_field_name := Some (arg_field_name a),
       h_file_name := Some (arg_file_name a),
       h_content_type := Some (arg_content_type a),
       h_content_length := arg_content_length a,
       h_charset := arg_charset a,
       h_content_type_extra := arg_content_type_extra a\<rparr>"

definition new_file ::
  "BlobstoreFileUploadHandler \<Rightarrow> new_file_args \<Rightarrow> BlobstoreFileUploadHandler \<times> (error + unit)" where
  "new_file h a =
     (let h1 = super_new_file h a
      in case h_content_type_extra h1 of
           None \<Rightarrow> (h1, Inl AttributeError)
         | Some extra \<Rightarrow>
             (let blobkey = extra ''blob-key'';
                  h2 = h1\<lparr>h_active := Some (blobkey \<noteq> None)\<rparr>
              in case blobkey of
                   None \<Rightarrow> (h2, Inr ())
                 | Some k \<Rightarrow> (h2\<lparr>h_blobkey := Some (BlobKey k)\<rparr>, Inl StopFutureHandlers)))"

text \<open>\<^verbatim>\<open>receive_data_chunk\<close> returns \<^verbatim>\<open>raw_data\<close>, or \<^verbatim>\<open>None\<close> by falling off its end.\<close>

definition receive_data_chunk ::
  "BlobstoreFileUploadHandler \<Rightarrow> bytes \<Rightarrow> int \<Rightarrow> error + bytes option" where
  "receive_data_chunk h raw_data start =
     (case h_active h of
        None \<Rightarrow> Inl AttributeError
      | Some active \<Rightarrow> if \<not> active then Inr (Some raw_data) else Inr None)"

definition file_complete ::
  "blobstore \<Rightarrow> BlobstoreFileUploadHandler \<Rightarrow> int \<Rightarrow> error + BlobstoreUploadedFile option" where
  "file_complete bs h file_size =
     (case h_active h of
        None \<Rightarrow> Inl AttributeError
      | Some active \<Rightarrow>
          if \<not> active then Inr None
          else (case h_blobkey h of
                  None \<Rightarrow> Inl AttributeError
                | Some k \<Rightarrow>
                    (case BlobstoreUploadedFile_init bs (BlobInfo_of_key k) (h_charset h) of
                       Inl e \<Rightarrow> Inl e
                     | Inr f \<Rightarrow> Inr (Some f))))"

text \<open>
  The three states of the interceptor are read off the attribute \<^verbatim>\<open>active\<close>. The
  multipart parser hands each chunk of a part to \<^verbatim>\<open>receive_data_chunk\<close> and passes on
  to the next handler what the call returns, nothing when it returns \<^verbatim>\<open>None\<close>;
  \<open>forwarded\<close> collects what is passed on for the chunks of one part.
\<close>

datatype interceptor_state = WATCHING | PASSTHROUGH | SHORT_CIRCUITED

definition state_of :: "BlobstoreFileUploadHandler \<Rightarrow> interceptor_state" where
  "state_of h =
     (case h_active h of
        None \<Rightarrow> WATCHING
      | Some active \<Rightarrow> if active then SHORT_CIRCUITED else PASSTHROUGH)"

fun forwarded :: "BlobstoreFileUploadHandler \<Rightarrow> bytes list \<Rightarrow> int \<Rightarrow> error + bytes list" where
  "forwarded h [] start = Inr []"
| "forwarded h (c # cs) start =
     (case receive_data_chunk h c start of
        Inl e \<Rightarrow> Inl e
      | Inr out \<Rightarrow>
          (case forwarded h cs (start + int (length c)) of
             Inl e \<Rightarrow> Inl e
           | Inr rest \<Rightarrow> Inr ((case out of None \<Rightarrow> [] | Some d \<Rightarrow> [d]) @ rest)))"

section \<open>\<^verbatim>\<open>CloudStorage\<close>\<close>

text \<open>
  \<^verbatim>\<open>CloudStorage\<close> works on the App Engine Files API. The API is given by what the
  class calls: \<^verbatim>\<open>files.gs.create\<close> makes a writable object and returns its path,
  \<^verbatim>\<open>files.open(path, 'a')\<close> with \<^verbatim>\<open>write\<close> appends to a writable object,
  \<^verbatim>\<open>files.finalize\<close> makes the object readable under the name it was created for, and
  \<^verbatim>\<open>files.open(path, 'r')\<close> opens a finalized object at offset 0 or raises
  \<^verbatim>\<open>ExistenceError\<close>; \<^verbatim>\<open>read(n)\<close> returns at most \<open>n\<close> bytes from the offset on and
  \<^verbatim>\<open>tell()\<close> the offset.
\<close>

record files_state =
  finalized :: "string \<rightharpoonup> bytes"
  writable :: "string \<rightharpoonup> bytes"

record files_reader =
  fr_data :: bytes
  fr_offset :: nat

definition files_gs_create :: "files_state \<Rightarrow> string \<Rightarrow> string \<times> files_state" where
  "files_gs_create fs filename = (filename, fs\<lparr>writable := (writable fs)(filename \<mapsto> [])\<rparr>)"

definition files_append :: "files_state \<Rightarrow> string \<Rightarrow> bytes \<Rightarrow> error + files_state" where
  "files_append fs write_path d =
     (case writable fs write_path of
        None \<Rightarrow> Inl ExistenceError
      | Some old \<Rightarrow> Inr (fs\<lparr>writable := (writable fs)(write_path \<mapsto> old @ d)\<rparr>))"

definition files_finalize :: "files_state \<Rightarrow> string \<Rightarrow> error + files_state" where
  "files_finalize fs write_path =
     (case writable fs write_path of
        None \<Rightarrow> Inl ExistenceError
      | Some d \<Rightarrow>
          Inr (fs\<lparr>finalized := (finalized fs)(write_path \<mapsto> d),
                  writable := (writable fs)(write_path := None)\<rparr>))"

definition files_open_read :: "files_state \<Rightarrow> string \<Rightarrow> error + files_reader" where
  "files_open_read fs path =
     (case finalized fs path of
        None \<Rightarrow> Inl ExistenceError
      | Some d \<Rightarrow> Inr \<lparr>fr_data = d, fr_offset = 0\<rparr>)"

definition files_read :: "files_reader \<Rightarrow> nat \<Rightarrow> bytes \<times> files_reader" where
  "files_read f n =
     (let d = take n (drop (fr_offset f) (fr_data f))
      in (d, f\<lparr>fr_offset := fr_offset f + length d\<rparr>))"

definition files_tell :: "files_reader \<Rightarrow> int" where
  "files_tell f = int (fr_offset f)"

text \<open>
  \<^verbatim>\<open>StringIO\<close> is a buffer with a cursor. Django's \<^verbatim>\<open>ContentFile\<close> "takes just raw
  content, rather than an actual file": its constructor wraps the content in a stream
  of its own and sets \<^verbatim>\<open>self.size = len(content)\<close>. A \<^verbatim>\<open>StringIO\<close> object has no length,
  so the constructor raises \<^verbatim>\<open>TypeError\<close> when it is given one.
\<close>

record StringIO =
  sio_buf :: bytes
  sio_pos :: nat

definition StringIO_init :: "bytes \<Rightarrow> StringIO" where
  "StringIO_init s = \<lparr>sio_buf = s, sio_pos = 0\<rparr>"

definition StringIO_read :: "StringIO \<Rightarrow> bytes \<times> StringIO" where
  "StringIO_read s = (drop (sio_pos s) (sio_buf s), s\<lparr>sio_pos := max (sio_pos s) (length (sio_buf s))\<rparr>)"

datatype content_arg = StrArg bytes | FileArg StringIO

record ContentFile =
  cf_file :: StringIO
  cf_size :: int

definition ContentFile_init :: "content_arg \<Rightarrow> error + ContentFile" where
  "ContentFile_init content =
     (case content of
        StrArg s \<Rightarrow> Inr \<lparr>cf_file = StringIO_init s, cf_size = int (length s)\<rparr>
      | FileArg f \<Rightarrow> Inl TypeError)"

text \<open>The constructor reads \<^verbatim>\<open>settings.APPENGINE_BUCKET\<close>, \<open>None\<close> when the setting is
  missing.\<close>

record CloudStorage =
  base_url :: string
  location :: string

definition CloudStorage_init :: "string option \<Rightarrow> error + CloudStorage" where
  "CloudStorage_init APPENGINE_BUCKET =
     (case APPENGINE_BUCKET of
        None \<Rightarrow> Inl ImproperlyConfigured
      | Some bucket_name \<Rightarrow>
          Inr \<lparr>base_url = ''//'' @ bucket_name @ ''.commondatastorage.googleapis.com/'',
               location = ''/gs/'' @ bucket_name @ ''/''\<rparr>)"

text \<open>The loop of \<^verbatim>\<open>_open\<close>: \<^verbatim>\<open>while data != "": data = f.read(1); file_data.append(data)\<close>.\<close>

function open_loop :: "files_reader \<Rightarrow> bytes \<Rightarrow> bytes list \<Rightarrow> bytes list \<times> files_reader" where
  "open_loop f d file_data =
     (if d \<noteq> []
      then (case files_read f 1 of (d', f') \<Rightarrow> open_loop f' d' (file_data @ [d']))
      else (file_data, f))"
  by pat_completeness auto
termination
  by (relation "measure (\<lambda>(f, d, file_data).
        (length (fr_data f) - fr_offset f) + (if d = [] then 0 else 1))")
     (auto simp: files_read_def Let_def)

declare open_loop.simps [simp del]

definition CloudStorage_open ::
  "CloudStorage \<Rightarrow> files_state \<Rightarrow> string \<Rightarrow> string \<Rightarrow> error + ContentFile" where
  "CloudStorage_open cs fs name mode =
     (case files_open_read fs (location cs @ name) of
        Inl e \<Rightarrow> Inl e
      | Inr f \<Rightarrow>
          (case files_read f 1 of
             (d, f1) \<Rightarrow>
               (case open_loop f1 d [d] of
                  (file_data, f2) \<Rightarrow>
                    ContentFile_init (FileArg (StringIO_init (concat file_data))))))"

text \<open>\<^verbatim>\<open>save\<close> reads all of the content and returns the name it was given.\<close>

definition CloudStorage_save ::
  "CloudStorage \<Rightarrow> files_state \<Rightarrow> string \<Rightarrow> StringIO \<Rightarrow> error + (string \<times> files_state \<times> StringIO)" where
  "CloudStorage_save cs fs name content =
     (case files_gs_create fs (location cs @ name) of
        (write_path, fs1) \<Rightarrow>
          (case StringIO_read content of
             (d, content') \<Rightarrow>
               (case files_append fs1 write_path d of
                  Inl e \<Rightarrow> Inl e
                | Inr fs2 \<Rightarrow>
                    (case files_finalize fs2 write_path of
                       Inl e \<Rightarrow> Inl e
                     | Inr fs3 \<Rightarrow> Inr (name, fs3, content')))))"

definition CloudStorage_exists :: "CloudStorage \<Rightarrow> files_state \<Rightarrow> string \<Rightarrow> error + bool" where
  "CloudStorage_exists cs fs name =
     (case files_open_read fs (location cs @ name) of
        Inr f \<Rightarrow> Inr True
      | Inl e \<Rightarrow> if e = ExistenceError then Inr False else Inl e)"

text \<open>The loop of \<^verbatim>\<open>size\<close>: \<^verbatim>\<open>while data != "": data = f.read(1)\<close>, then \<^verbatim>\<open>f.tell()\<close>.\<close>

function size_loop :: "files_reader \<Rightarrow> bytes \<Rightarrow> files_reader" where
  "size_loop f d =
     (if d \<noteq> []
      then (case files_read f 1 of (d', f') \<Rightarrow> size_loop f' d')
      else f)"
  by pat_completeness auto
termination
  by (relation "measure (\<lambda>(f, d).
        (length (fr_data f) - fr_offset f) + (if d = [] then 0 else 1))")
     (auto simp: files_read_def Let_def)

declare size_loop.simps [simp del]

definition CloudStorage_size :: "CloudStorage \<Rightarrow> files_state \<Rightarrow> string \<Rightarrow> error + int" where
  "CloudStorage_size cs fs name =
     (case files_open_read fs (location cs @ name) of
        Inl e \<Rightarrow> Inl e
      | Inr f \<Rightarrow>
          (case files_read f 1 of
             (d, f1) \<Rightarrow> Inr (files_tell (size_loop f1 d))))"

definition CloudStorage_url :: "CloudStorage \<Rightarrow> string \<Rightarrow> string" where
  "CloudStorage_url cs name = base_url cs @ name"

section \<open>Properties of the string methods\<close>

lemma replace_backslash_idem: "replace_backslash (replace_backslash s) = replace_backslash s"
  by (simp add: replace_backslash_def backslash_def slash_def)

lemma isspace_replace:
  "isspace (if c = backslash then slash else c) = isspace c"
  by (simp add: isspace_def backslash_def slash_def)

lemma dropWhile_isspace_replace:
  "dropWhile isspace (replace_backslash s) = replace_backslash (dropWhile isspace s)"
  unfolding replace_backslash_def
  by (induction s) (simp_all add: isspace_replace del: if_split cong: if_cong)

lemma rev_replace: "rev (replace_backslash s) = replace_backslash (rev s)"
  by (simp add: replace_backslash_def rev_map)

lemma strip_replace: "strip (replace_backslash s) = replace_backslash (strip s)"
  unfolding strip_def
  by (simp only: dropWhile_isspace_replace rev_replace)

lemma dropWhile_hd_id: "xs \<noteq> [] \<Longrightarrow> \<not> P (hd xs) \<Longrightarrow> dropWhile P xs = xs"
  by (cases xs) simp_all

lemma last_dropWhile: "dropWhile P xs \<noteq> [] \<Longrightarrow> last (dropWhile P xs) = last xs"
  by (induction xs) (auto split: if_splits)

lemma strip_idem: "strip (strip s) = strip s"
proof -
  define d where "d = dropWhile isspace s"
  define u where "u = dropWhile isspace (rev d)"
  have strip_s: "strip s = rev u"
    by (simp add: strip_def u_def d_def)
  have front: "dropWhile isspace (rev u) = rev u"
  proof (cases "u = []")
    case True
    then show ?thesis by simp
  next
    case False
    then have "rev d \<noteq> []"
      unfolding u_def by auto
    then have d_ne: "d \<noteq> []" by simp
    have "last u = last (rev d)"
      using False unfolding u_def by (rule last_dropWhile)
    also have "\<dots> = hd d"
      using d_ne by (simp add: last_rev)
    finally have "hd (rev u) = hd d"
      using False by (simp add: hd_rev)
    moreover have "\<not> isspace (hd d)"
      using d_ne unfolding d_def by (rule hd_dropWhile)
    ultimately show ?thesis
      using False by (simp add: dropWhile_hd_id)
  qed
  have rear: "dropWhile isspace u = u"
    unfolding u_def by (rule dropWhile_idem)
  show ?thesis
    unfolding strip_s by (simp add: strip_def front rear)
qed

section \<open>Name normalisation\<close>

text \<open>
  C8. Both name normalisations of the Blobstore storage are idempotent:
  \<open>get_valid_name\<close> (unicode conversion, strip, backslash to slash) and
  \<open>get_available_name\<close> (backslash to slash) give the same name when applied twice
  as when applied once.
\<close>

theorem normalize_idempotent:
  "get_valid_name (get_valid_name n) = get_valid_name n \<and>
   get_available_name (get_available_name n) = get_available_name n"
  by (simp add: get_valid_name_def get_available_name_def force_unicode_def
      strip_replace strip_idem replace_backslash_idem)

section \<open>Canonical names of the Blobstore storage\<close>

lemma split_first_canonical:
  "slash \<notin> set k \<Longrightarrow> split_first (k @ [slash] @ rest) = k"
  unfolding split_first_def
  by (induction k) auto

lemma lstrip_slash_id: "(s = [] \<or> hd s \<noteq> slash) \<Longrightarrow> lstrip_slash s = s"
  unfolding lstrip_slash_def by (cases s) auto

lemma replace_backslash_id: "backslash \<notin> set s \<Longrightarrow> replace_backslash s = s"
  unfolding replace_backslash_def by (induction s) auto

text \<open>
  C10. \<open>get_available_name\<close> returns the name with every backslash replaced by a slash
  and nothing else changed. It takes no Blobstore, so its result cannot depend on what
  is stored: two contents with the blobs \<open>k1\<close> and \<open>k2\<close> saved under the same client
  name get canonical names with the same path after the key, which differ in the key
  only.
\<close>

theorem get_available_name_no_collision_avoidance:
  "get_available_name n = map (\<lambda>c. if c = backslash then slash else c) n \<and>
   BlobstoreStorage_save (get_available_name n)
       \<lparr>file_attr = None, blobstore_info_attr = Some (BlobInfoVal (BlobInfo k1 e1)), size_attr = z1\<rparr>
     = Inr (str_of k1 @ [slash] @ lstrip_slash (replace_backslash n)) \<and>
   BlobstoreStorage_save (get_available_name n)
       \<lparr>file_attr = None, blobstore_info_attr = Some (BlobInfoVal (BlobInfo k2 e2)), size_attr = z2\<rparr>
     = Inr (str_of k2 @ [slash] @ lstrip_slash (replace_backslash n))"
  by (simp add: get_available_name_def BlobstoreStorage_save_def probe_blobstore_info_def
      replace_backslash_idem flip: replace_backslash_def)

text \<open>
  C5. A content object that carries no Blob Reference (the probe of the object and of
  its \<^verbatim>\<open>file\<close> attribute finds neither a \<^verbatim>\<open>BlobInfo\<close> nor a \<^verbatim>\<open>BlobKey\<close>) is rejected by
  \<^verbatim>\<open>_save\<close> with \<^verbatim>\<open>ValueError\<close>. \<^verbatim>\<open>_save\<close> takes and returns no Blobstore: it stores
  nothing.
\<close>

theorem save_rejects_without_blob_reference:
  "\<not> carries_blob_reference content \<Longrightarrow> BlobstoreStorage_save name content = Inl ValueError"
  by (auto simp: carries_blob_reference_def BlobstoreStorage_save_def
      split: option.splits py_value.splits)

text \<open>Witness of C5: a content object with neither attribute.\<close>

theorem save_rejects_without_blob_reference_witness:
  "\<not> carries_blob_reference \<lparr>file_attr = None, blobstore_info_attr = None, size_attr = None\<rparr> \<and>
   BlobstoreStorage_save ''a.txt''
     \<lparr>file_attr = None, blobstore_info_attr = None, size_attr = None\<rparr> = Inl ValueError"
proof -
  have h: "\<not> carries_blob_reference \<lparr>file_attr = None, blobstore_info_attr = None, size_attr = None\<rparr>"
    by (simp add: carries_blob_reference_def probe_blobstore_info_def)
  from save_rejects_without_blob_reference [OF h, of "''a.txt''"] h show ?thesis
    by (rule conjI [rotated])
qed

text \<open>
  C3, as the claim states it, says that the canonical name is the key, a slash and the
  name \<open>p\<close> itself. For \<open>p = ''/a.txt''\<close> and the key \<open>k\<close> the claim gives \<open>k//a.txt\<close>;
  \<^verbatim>\<open>_save\<close> returns \<open>k/a.txt\<close>.
\<close>

theorem save_name_counterexample:
  "BlobstoreStorage_save ''/a.txt''
     \<lparr>file_attr = None,
      blobstore_info_attr = Some (BlobInfoVal (BlobInfo (BlobKey ''k'') None)),
      size_attr = None\<rparr> = Inr ''k/a.txt'' \<and>
   ''k/a.txt'' \<noteq> ''k'' @ ''/'' @ ''/a.txt''"
  by (simp add: BlobstoreStorage_save_def probe_blobstore_info_def replace_backslash_def
      lstrip_slash_def slash_def backslash_def)

text \<open>
  C3, amended. For a content object that carries a \<^verbatim>\<open>BlobInfo\<close> with key \<open>k\<close>, where \<open>k\<close>
  has no slash and the Blobstore has the entity \<open>e\<close> for \<open>k\<close>, \<^verbatim>\<open>_save\<close> under any name
  \<open>p\<close> returns the key, a slash, and \<open>p\<close> with its backslashes replaced by slashes and
  its leading slashes dropped; that is \<open>k/p\<close> when \<open>p\<close> has no backslash and does not
  start with a slash. The part of the canonical name before its first slash is the key,
  and \<^verbatim>\<open>_open\<close> on the canonical name gives a file whose \<^verbatim>\<open>blobstore_info\<close> has the same
  key, size and content type as the saved one.
\<close>

theorem save_open_roundtrip:
  assumes "slash \<notin> set (str_of k)"
    and "entities bs k = Some e"
    and "probe_blobstore_info content = Some (BlobInfoVal bi)"
    and "info_key bi = k"
    and "info_entity bi = None \<or> info_entity bi = Some e"
  shows "\<exists>canon f bi'.
      BlobstoreStorage_save p content = Inr canon \<and>
      canon = str_of k @ [slash] @ lstrip_slash (replace_backslash p) \<and>
      ((p = [] \<or> hd p \<noteq> slash) \<and> backslash \<notin> set p \<longrightarrow> canon = str_of k @ [slash] @ p) \<and>
      split_first canon = str_of k \<and>
      get_key canon = k \<and>
      BlobstoreStorage_open bs canon mode = Inr f \<and>
      bf_blobstore_info f = Some bi' \<and>
      info_key bi' = info_key bi \<and>
      BlobInfo_size bs bi' = BlobInfo_size bs bi \<and>
      BlobInfo_size bs bi' = Inr (entity_size e) \<and>
      BlobInfo_content_type bs bi' = BlobInfo_content_type bs bi \<and>
      BlobInfo_content_type bs bi' = Inr (entity_content_type e)"
proof -
  let ?canon = "str_of k @ [slash] @ lstrip_slash (replace_backslash p)"
  have saved: "BlobstoreStorage_save p content = Inr ?canon"
    using assms(3,4) by (simp add: BlobstoreStorage_save_def)
  have key: "split_first ?canon = str_of k"
    using assms(1) by (rule split_first_canonical)
  then have gk: "get_key ?canon = k"
    by (simp add: get_key_def)
  have plain: "(p = [] \<or> hd p \<noteq> slash) \<and> backslash \<notin> set p \<longrightarrow> ?canon = str_of k @ [slash] @ p"
    by (auto simp: replace_backslash_id lstrip_slash_id)
  have info: "get_blobinfo bs ?canon = Some (BlobInfo k (Some e))"
    using assms(2) gk by (simp add: get_blobinfo_def BlobInfo_get_def)
  have ent: "BlobInfo_entity bs bi = Inr e"
    using assms(2,4,5) by (auto simp: BlobInfo_entity_def)
  have ent': "BlobInfo_entity bs (BlobInfo k (Some e)) = Inr e"
    by (simp add: BlobInfo_entity_def)
  show ?thesis
    using saved key gk plain info ent ent' assms(4)
    by (simp add: BlobstoreStorage_open_def BlobstoreFile_init_def BlobInfo_size_def
        BlobInfo_content_type_def)
qed

text \<open>Witness of C3: the key \<open>k\<close> with the names \<open>dir/a.txt\<close> and \<open>/dir/a.txt\<close>.\<close>

theorem save_open_roundtrip_witness:
  "slash \<notin> set (str_of (BlobKey ''k'')) \<and>
   (hd ''dir/a.txt'' \<noteq> slash \<and> backslash \<notin> set ''dir/a.txt'') \<and>
   BlobstoreStorage_save ''dir/a.txt''
     \<lparr>file_attr = None,
      blobstore_info_attr = Some (BlobInfoVal (BlobInfo (BlobKey ''k'') None)),
      size_attr = None\<rparr> = Inr ''k/dir/a.txt'' \<and>
   BlobstoreStorage_save ''/dir/a.txt''
     \<lparr>file_attr = None,
      blobstore_info_attr = Some (BlobInfoVal (BlobInfo (BlobKey ''k'') None)),
      size_attr = None\<rparr> = Inr ''k/dir/a.txt'' \<and>
   get_key ''k/dir/a.txt'' = BlobKey ''k'' \<and>
   (\<exists>f bi'.
      BlobstoreStorage_open
        \<lparr>entities = map_of [(BlobKey ''k'',
            \<lparr>entity_content_type = ''text/plain'', entity_filename = ''a.txt'', entity_size = 3\<rparr>)],
         blobs = map_of []\<rparr> ''k/dir/a.txt'' ''rb'' = Inr f \<and>
      bf_blobstore_info f = Some bi' \<and>
      info_key bi' = BlobKey ''k'' \<and>
      BlobInfo_size
        \<lparr>entities = map_of [(BlobKey ''k'',
            \<lparr>entity_content_type = ''text/plain'', entity_filename = ''a.txt'', entity_size = 3\<rparr>)],
         blobs = map_of []\<rparr> bi' = Inr 3 \<and>
      BlobInfo_content_type
        \<lparr>entities = map_of [(BlobKey ''k'',
            \<lparr>entity_content_type = ''text/plain'', entity_filename = ''a.txt'', entity_size = 3\<rparr>)],
         blobs = map_of []\<rparr> bi' = Inr ''text/plain'')"
proof -
  let ?e = "\<lparr>entity_content_type = ''text/plain'', entity_filename = ''a.txt'', entity_size = 3\<rparr>"
  let ?bs = "\<lparr>entities = map_of [(BlobKey ''k'', ?e)], blobs = map_of []\<rparr>"
  let ?bi = "BlobInfo (BlobKey ''k'') None"
  let ?c = "\<lparr>file_attr = None, blobstore_info_attr = Some (BlobInfoVal ?bi), size_attr = None\<rparr>"
  have h1: "slash \<notin> set (str_of (BlobKey ''k''))"
    by (simp add: slash_def)
  have h2: "entities ?bs (BlobKey ''k'') = Some ?e"
    by simp
  have h3: "probe_blobstore_info ?c = Some (BlobInfoVal ?bi)"
    by (simp add: probe_blobstore_info_def)
  have h4: "info_key ?bi = BlobKey ''k''"
    by simp
  have h5: "info_entity ?bi = None \<or> info_entity ?bi = Some ?e"
    by simp
  have plain: "hd ''dir/a.txt'' \<noteq> slash \<and> backslash \<notin> set ''dir/a.txt''"
    by (simp add: slash_def backslash_def)
  have canon: "str_of (BlobKey ''k'') @ [slash] @ lstrip_slash (replace_backslash ''/dir/a.txt'')
      = ''k/dir/a.txt''"
    by (simp add: lstrip_slash_def replace_backslash_def slash_def backslash_def)
  have canon': "str_of (BlobKey ''k'') @ [slash] @ ''dir/a.txt'' = ''k/dir/a.txt''"
    by (simp add: slash_def)
  from save_open_roundtrip [OF h1 h2 h3 h4 h5, of "''dir/a.txt''" "''rb''"] plain
  have relative: "BlobstoreStorage_save ''dir/a.txt'' ?c = Inr ''k/dir/a.txt''"
    using canon' by auto
  from save_open_roundtrip [OF h1 h2 h3 h4 h5, of "''/dir/a.txt''" "''rb''"]
  have rooted: "BlobstoreStorage_save ''/dir/a.txt'' ?c = Inr ''k/dir/a.txt'' \<and>
      get_key ''k/dir/a.txt'' = BlobKey ''k'' \<and>
      (\<exists>f bi'. BlobstoreStorage_open ?bs ''k/dir/a.txt'' ''rb'' = Inr f \<and>
         bf_blobstore_info f = Some bi' \<and> info_key bi' = BlobKey ''k'' \<and>
         BlobInfo_size ?bs bi' = Inr 3 \<and>
         BlobInfo_content_type ?bs bi' = Inr ''text/plain'')"
    unfolding canon by auto
  from h1 plain relative rooted show ?thesis
    by blast
qed

text \<open>
  C6, as the claim states it, says that \<^verbatim>\<open>open\<close> fails for a name that was never
  stored. On the empty Blobstore \<^verbatim>\<open>_open\<close> returns a \<^verbatim>\<open>BlobstoreFile\<close>.
\<close>

theorem open_absent_counterexample:
  "entities \<lparr>entities = map_of [], blobs = map_of []\<rparr> (get_key ''nokey/a.txt'') = None \<and>
   BlobstoreStorage_open \<lparr>entities = map_of [], blobs = map_of []\<rparr> ''nokey/a.txt'' ''rb''
     = Inr \<lparr>bf_name = ''nokey/a.txt'', bf_mode = ''rb'', bf_blobstore_info = None, bf_file = None\<rparr>"
  by (simp add: BlobstoreStorage_open_def BlobstoreFile_init_def get_blobinfo_def
      BlobInfo_get_def)

text \<open>
  C6, amended. For a name whose part before the first slash is a key string the SDK
  accepts (not empty, at most 1500 bytes) and has no entity in the Blobstore, \<^verbatim>\<open>exists\<close>
  returns \<^verbatim>\<open>False\<close> and \<^verbatim>\<open>size\<close> fails, with the \<^verbatim>\<open>AttributeError\<close> of reading \<^verbatim>\<open>size\<close>
  of \<^verbatim>\<open>None\<close>. \<^verbatim>\<open>_open\<close> does not fail: it returns a \<^verbatim>\<open>BlobstoreFile\<close> whose
  \<^verbatim>\<open>blobstore_info\<close> is \<^verbatim>\<open>None\<close>, and the failure comes when the \<^verbatim>\<open>size\<close> or the \<^verbatim>\<open>file\<close> of
  that object is read.
\<close>

theorem absent_name:
  assumes "accepted_key_string (str_of (get_key n))"
    and "entities bs (get_key n) = None"
  shows "BlobstoreStorage_exists bs n = False \<and>
         BlobstoreStorage_size bs n = Inl AttributeError \<and>
         (\<exists>f. BlobstoreStorage_open bs n mode = Inr f \<and>
              bf_blobstore_info f = None \<and>
              BlobstoreFile_size bs f = Inl AttributeError \<and>
              BlobstoreFile_file f = Inl AttributeError)"
  using assms(2)
  by (simp add: BlobstoreStorage_exists_def BlobstoreStorage_size_def get_blobinfo_def
      BlobInfo_get_def BlobstoreStorage_open_def BlobstoreFile_init_def BlobstoreFile_size_def
      BlobstoreFile_file_def)

text \<open>Witness of C6: the name \<open>nokey/a.txt\<close> on the empty Blobstore.\<close>

theorem absent_name_witness:
  "accepted_key_string (str_of (get_key ''nokey/a.txt'')) \<and>
   entities \<lparr>entities = map_of [], blobs = map_of []\<rparr> (get_key ''nokey/a.txt'') = None \<and>
   BlobstoreStorage_exists \<lparr>entities = map_of [], blobs = map_of []\<rparr> ''nokey/a.txt'' = False \<and>
   BlobstoreStorage_size \<lparr>entities = map_of [], blobs = map_of []\<rparr> ''nokey/a.txt''
     = Inl AttributeError"
proof -
  have k: "accepted_key_string (str_of (get_key ''nokey/a.txt''))"
    by (simp add: accepted_key_string_def get_key_def split_first_def slash_def)
  have h: "entities \<lparr>entities = map_of [], blobs = map_of []\<rparr> (get_key ''nokey/a.txt'') = None"
    by simp
  from absent_name [OF k h, of "''rb''"] k h show ?thesis
    by blast
qed

section \<open>The upload handler\<close>

lemma forwarded_short_circuit: "h_active h = Some True \<Longrightarrow> forwarded h cs start = Inr []"
  by (induction cs arbitrary: start) (simp_all add: receive_data_chunk_def)

lemma forwarded_passthrough: "h_active h = Some False \<Longrightarrow> forwarded h cs start = Inr cs"
  by (induction cs arbitrary: start) (simp_all add: receive_data_chunk_def)

text \<open>
  C1. When the \<^verbatim>\<open>content_type_extra\<close> of a part has a \<^verbatim>\<open>blob-key\<close>, \<^verbatim>\<open>new_file\<close> sets
  \<^verbatim>\<open>active\<close>, records the key and raises \<^verbatim>\<open>StopFutureHandlers\<close>; the handler is then in
  the state \<open>SHORT_CIRCUITED\<close>, every \<^verbatim>\<open>receive_data_chunk\<close> returns \<^verbatim>\<open>None\<close> and nothing
  of the part is passed on. When it has none, \<^verbatim>\<open>new_file\<close> returns, the handler is in
  the state \<open>PASSTHROUGH\<close>, every \<^verbatim>\<open>receive_data_chunk\<close> returns its \<^verbatim>\<open>raw_data\<close>, all
  chunks are passed on as they are, and \<^verbatim>\<open>file_complete\<close> returns \<^verbatim>\<open>None\<close>.
\<close>

theorem interceptor_transitions:
  assumes "arg_content_type_extra a = Some extra"
  shows "(extra ''blob-key'' = Some k \<longrightarrow>
           (\<exists>h'. new_file h a = (h', Inl StopFutureHandlers) \<and>
                 state_of h' = SHORT_CIRCUITED \<and>
                 h_active h' = Some True \<and>
                 h_blobkey h' = Some (BlobKey k) \<and>
                 (\<forall>raw_data start. receive_data_chunk h' raw_data start = Inr None) \<and>
                 (\<forall>cs start. forwarded h' cs start = Inr []))) \<and>
         (extra ''blob-key'' = None \<longrightarrow>
           (\<exists>h'. new_file h a = (h', Inr ()) \<and>
                 state_of h' = PASSTHROUGH \<and>
                 h_active h' = Some False \<and>
                 (\<forall>raw_data start. receive_data_chunk h' raw_data start = Inr (Some raw_data)) \<and>
                 (\<forall>cs start. forwarded h' cs start = Inr cs) \<and>
                 (\<forall>bs file_size. file_complete bs h' file_size = Inr None)))"
proof (intro conjI impI)
  assume k: "extra ''blob-key'' = Some k"
  define h' where "h' = fst (new_file h a)"
  have nf: "new_file h a = (h', Inl StopFutureHandlers)"
    using assms k by (simp add: h'_def new_file_def super_new_file_def Let_def)
  have act: "h_active h' = Some True" and key: "h_blobkey h' = Some (BlobKey k)"
    using assms k by (simp_all add: h'_def new_file_def super_new_file_def Let_def)
  show "\<exists>h'. new_file h a = (h', Inl StopFutureHandlers) \<and>
                 state_of h' = SHORT_CIRCUITED \<and>
                 h_active h' = Some True \<and>
                 h_blobkey h' = Some (BlobKey k) \<and>
                 (\<forall>raw_data start. receive_data_chunk h' raw_data start = Inr None) \<and>
                 (\<forall>cs start. forwarded h' cs start = Inr [])"
    using nf act key
    by (intro exI [of _ h']) (simp add: state_of_def receive_data_chunk_def forwarded_short_circuit)
next
  assume k: "extra ''blob-key'' = None"
  define h' where "h' = fst (new_file h a)"
  have nf: "new_file h a = (h', Inr ())"
    using assms k by (simp add: h'_def new_file_def super_new_file_def Let_def)
  have act: "h_active h' = Some False"
    using assms k by (simp_all add: h'_def new_file_def super_new_file_def Let_def)
  show "\<exists>h'. new_file h a = (h', Inr ()) \<and>
                 state_of h' = PASSTHROUGH \<and>
                 h_active h' = Some False \<and>
                 (\<forall>raw_data start. receive_data_chunk h' raw_data start = Inr (Some raw_data)) \<and>
                 (\<forall>cs start. forwarded h' cs start = Inr cs) \<and>
                 (\<forall>bs file_size. file_complete bs h' file_size = Inr None)"
    using nf act
    by (intro exI [of _ h'])
       (simp add: state_of_def receive_data_chunk_def forwarded_passthrough file_complete_def)
qed

text \<open>Witness of C1: one part with a \<^verbatim>\<open>blob-key\<close> and one without.\<close>

theorem interceptor_transitions_witness:
  "(\<exists>h'. new_file
      \<lparr>h_field_name = None, h_file_name = None, h_content_type = None, h_content_length = None,
       h_charset = None, h_content_type_extra = None, h_active = None, h_blobkey = None\<rparr>
      \<lparr>arg_field_name = ''f'', arg_file_name = ''a.txt'', arg_content_type = ''text/plain'',
       arg_content_length = None, arg_charset = None,
       arg_content_type_extra = Some (map_of [(''blob-key'', ''k1'')])\<rparr>
        = (h', Inl StopFutureHandlers) \<and>
      state_of h' = SHORT_CIRCUITED \<and>
      forwarded h' [''ab'', ''c''] 0 = Inr []) \<and>
   (\<exists>h'. new_file
      \<lparr>h_field_name = None, h_file_name = None, h_content_type = None, h_content_length = None,
       h_charset = None, h_content_type_extra = None, h_active = None, h_blobkey = None\<rparr>
      \<lparr>arg_field_name = ''f'', arg_file_name = ''a.txt'', arg_content_type = ''text/plain'',
       arg_content_length = None, arg_charset = None,
       arg_content_type_extra = Some (map_of [])\<rparr>
        = (h', Inr ()) \<and>
      state_of h' = PASSTHROUGH \<and>
      forwarded h' [''ab'', ''c''] 0 = Inr [''ab'', ''c''])"
proof -
  let ?h = "\<lparr>h_field_name = None, h_file_name = None, h_content_type = None,
       h_content_length = None, h_charset = None, h_content_type_extra = None,
       h_active = None, h_blobkey = None\<rparr>"
  let ?a1 = "\<lparr>arg_field_name = ''f'', arg_file_name = ''a.txt'', arg_content_type = ''text/plain'',
       arg_content_length = None, arg_charset = None,
       arg_content_type_extra = Some (map_of [(''blob-key'', ''k1'')])\<rparr>"
  let ?a2 = "\<lparr>arg_field_name = ''f'', arg_file_name = ''a.txt'', arg_content_type = ''text/plain'',
       arg_content_length = None, arg_charset = None,
       arg_content_type_extra = Some (map_of [])\<rparr>"
  have e1: "arg_content_type_extra ?a1 = Some (map_of [(''blob-key'', ''k1'')])"
    and k1: "map_of [(''blob-key'', ''k1'')] ''blob-key'' = Some ''k1''"
    by simp_all
  have e2: "arg_content_type_extra ?a2 = Some (map_of [])"
    and k2: "(map_of [] :: string \<rightharpoonup> string) ''blob-key'' = None"
    by simp_all
  from interceptor_transitions [OF e1, of "''k1''" ?h] k1
  have first: "\<exists>h'. new_file ?h ?a1 = (h', Inl StopFutureHandlers) \<and>
      state_of h' = SHORT_CIRCUITED \<and> forwarded h' [''ab'', ''c''] 0 = Inr []"
    by blast
  from interceptor_transitions [OF e2, of "''k1''" ?h] k2
  have second: "\<exists>h'. new_file ?h ?a2 = (h', Inr ()) \<and>
      state_of h' = PASSTHROUGH \<and> forwarded h' [''ab'', ''c''] 0 = Inr [''ab'', ''c'']"
    by blast
  from first second show ?thesis by (rule conjI)
qed

text \<open>
  C7, as the claim states it, says that \<^verbatim>\<open>file_complete\<close> succeeds for a key that does
  not resolve. On the empty Blobstore \<^verbatim>\<open>file_complete\<close> raises \<^verbatim>\<open>EntityNotFoundError\<close>.
\<close>

theorem completion_counterexample:
  "file_complete \<lparr>entities = map_of [], blobs = map_of []\<rparr>
     (fst (new_file
        \<lparr>h_field_name = None, h_file_name = None, h_content_type = None, h_content_length = None,
         h_charset = None, h_content_type_extra = None, h_active = None, h_blobkey = None\<rparr>
        \<lparr>arg_field_name = ''f'', arg_file_name = ''a.txt'', arg_content_type = ''text/plain'',
         arg_content_length = None, arg_charset = None,
         arg_content_type_extra = Some (map_of [(''blob-key'', ''missing'')])\<rparr>)) 0
     = Inl EntityNotFoundError"
  by (simp add: new_file_def super_new_file_def file_complete_def BlobstoreUploadedFile_init_def
      BlobInfo_of_key_def BlobInfo_entity_def Let_def)

text \<open>
  C7, amended. When a part carries a blob key that has no entity in the Blobstore,
  \<^verbatim>\<open>new_file\<close> still short-circuits (it sets \<^verbatim>\<open>active\<close>, records the key and raises
  \<^verbatim>\<open>StopFutureHandlers\<close>; it takes no Blobstore) and \<^verbatim>\<open>receive_data_chunk\<close> returns
  \<^verbatim>\<open>None\<close>. The failure comes at completion: \<^verbatim>\<open>file_complete\<close> raises
  \<^verbatim>\<open>EntityNotFoundError\<close>, because the constructor of \<^verbatim>\<open>BlobstoreUploadedFile\<close> reads the
  blob's filename, content type and size, and no file object is produced.
\<close>

theorem dangling_key_fails_at_completion:
  assumes "arg_content_type_extra a = Some extra"
    and "extra ''blob-key'' = Some k"
    and "entities bs (BlobKey k) = None"
  shows "\<exists>h'. new_file h a = (h', Inl StopFutureHandlers) \<and>
              h_active h' = Some True \<and>
              h_blobkey h' = Some (BlobKey k) \<and>
              (\<forall>raw_data start. receive_data_chunk h' raw_data start = Inr None) \<and>
              file_complete bs h' file_size = Inl EntityNotFoundError"
proof -
  define h' where "h' = fst (new_file h a)"
  have nf: "new_file h a = (h', Inl StopFutureHandlers)"
    using assms(1,2) by (simp add: h'_def new_file_def super_new_file_def Let_def)
  have act: "h_active h' = Some True" and key: "h_blobkey h' = Some (BlobKey k)"
    using assms(1,2) by (simp_all add: h'_def new_file_def super_new_file_def Let_def)
  have "BlobstoreUploadedFile_init bs (BlobInfo_of_key (BlobKey k)) (h_charset h')
          = Inl EntityNotFoundError"
    using assms(3)
    by (simp add: BlobstoreUploadedFile_init_def BlobInfo_of_key_def BlobInfo_entity_def)
  then have "file_complete bs h' file_size = Inl EntityNotFoundError"
    using act key by (simp add: file_complete_def)
  then show ?thesis
    using nf act key by (intro exI [of _ h']) (simp add: receive_data_chunk_def)
qed

text \<open>Witness of C7: the key \<open>missing\<close> and the empty Blobstore.\<close>

theorem dangling_key_fails_at_completion_witness:
  "map_of [(''blob-key'', ''missing'')] ''blob-key'' = Some ''missing'' \<and>
   entities \<lparr>entities = map_of [], blobs = map_of []\<rparr> (BlobKey ''missing'') = None \<and>
   (\<exists>h'. new_file
      \<lparr>h_field_name = None, h_file_name = None, h_content_type = None, h_content_length = None,
       h_charset = None, h_content_type_extra = None, h_active = None, h_blobkey = None\<rparr>
      \<lparr>arg_field_name = ''f'', arg_file_name = ''a.txt'', arg_content_type = ''text/plain'',
       arg_content_length = None, arg_charset = None,
       arg_content_type_extra = Some (map_of [(''blob-key'', ''missing'')])\<rparr>
        = (h', Inl StopFutureHandlers) \<and>
      file_complete \<lparr>entities = map_of [], blobs = map_of []\<rparr> h' 0 = Inl EntityNotFoundError)"
proof -
  let ?h = "\<lparr>h_field_name = None, h_file_name = None, h_content_type = None,
       h_content_length = None, h_charset = None, h_content_type_extra = None,
       h_active = None, h_blobkey = None\<rparr>"
  let ?a = "\<lparr>arg_field_name = ''f'', arg_file_name = ''a.txt'', arg_content_type = ''text/plain'',
       arg_content_length = None, arg_charset = None,
       arg_content_type_extra = Some (map_of [(''blob-key'', ''missing'')])\<rparr>"
  let ?bs = "\<lparr>entities = map_of [], blobs = map_of []\<rparr>"
  have e: "arg_content_type_extra ?a = Some (map_of [(''blob-key'', ''missing'')])"
    and k: "map_of [(''blob-key'', ''missing'')] ''blob-key'' = Some ''missing''"
    and m: "entities ?bs (BlobKey ''missing'') = None"
    by simp_all
  from dangling_key_fails_at_completion [OF e k m, of ?h 0] k m show ?thesis
    by blast
qed

section \<open>Chunks of an uploaded blob\<close>

lemma seek_seek: "BlobReader_seek (BlobReader_seek r p) q = BlobReader_seek r q"
  by (simp add: BlobReader_seek_def)

lemma seek_after_update: "BlobReader_seek (r\<lparr>reader_pos := p\<rparr>) q = BlobReader_seek r q"
  by (simp add: BlobReader_seek_def)

lemma chunks_loop_reads_rest:
  assumes "blobs bs (reader_key r) = Some b" and "0 < c" and "reader_pos r \<le> length b"
  shows "\<exists>cs. chunks_loop bs r c = Inr (cs, r\<lparr>reader_pos := length b\<rparr>) \<and>
              concat cs = drop (reader_pos r) b \<and>
              (\<forall>x \<in> set cs. x \<noteq> [] \<and> int (length x) \<le> c)"
  using assms
proof (induction bs r c rule: chunks_loop.induct)
  case (1 bs r c)
  let ?content = "take (nat c) (drop (reader_pos r) b)"
  let ?r' = "r\<lparr>reader_pos := reader_pos r + length ?content\<rparr>"
  have rd: "BlobReader_read bs r c = Inr (?content, ?r')"
    using "1.prems" by (simp add: BlobReader_read_def Let_def)
  show ?case
  proof (cases "?content = []")
    case True
    with "1.prems" have at_end: "reader_pos r = length b" by auto
    have "reader_pos r + length ?content = length b"
      using at_end by simp
    then have same: "?r' = r\<lparr>reader_pos := length b\<rparr>"
      by (simp only:)
    have "chunks_loop bs r c = Inr ([], ?r')"
      by (subst chunks_loop.simps, subst rd) (simp add: True)
    then show ?thesis
      using same at_end by simp
  next
    case False
    have key': "blobs bs (reader_key ?r') = Some b"
      using "1.prems" by simp
    have le': "reader_pos ?r' \<le> length b"
      using "1.prems" by simp
    from "1.IH" [OF rd refl False key' "1.prems"(2) le']
    obtain cs where cs: "chunks_loop bs ?r' c = Inr (cs, ?r'\<lparr>reader_pos := length b\<rparr>)"
      and cat: "concat cs = drop (reader_pos ?r') b"
      and bound: "\<forall>x \<in> set cs. x \<noteq> [] \<and> int (length x) \<le> c"
      by blast
    have unfold: "chunks_loop bs r c = Inr (?content # cs, r\<lparr>reader_pos := length b\<rparr>)"
      using rd False cs by (subst chunks_loop.simps) simp
    have "?content @ drop (reader_pos ?r') b = drop (reader_pos r) b"
    proof -
      have "length ?content = min (nat c) (length b - reader_pos r)" by simp
      then have eq: "drop (reader_pos ?r') b = drop (nat c) (drop (reader_pos r) b)"
        by (cases "nat c \<le> length b - reader_pos r") (simp_all add: add.commute min_def)
      show ?thesis
        unfolding eq by (rule append_take_drop_id)
    qed
    then have cat': "concat (?content # cs) = drop (reader_pos r) b"
      using cat by simp
    have "int (length ?content) \<le> c"
      using "1.prems"(2) by simp
    with False bound have bound': "\<forall>x \<in> set (?content # cs). x \<noteq> [] \<and> int (length x) \<le> c"
      by simp
    show ?thesis
      using unfold cat' bound' by blast
  qed
qed

text \<open>
  C2. For an uploaded file over a blob with the bytes \<open>b\<close> and a positive chunk size
  \<open>c\<close>, \<^verbatim>\<open>chunks\<close> returns (the loop ends) chunks that are not empty, have at most \<open>c\<close>
  bytes each and concatenate to \<open>b\<close>. The reader is left at the end of the blob, where
  a read is empty. The cursor is set to 0 first: the result is the same wherever the
  reader stood before, and calling \<^verbatim>\<open>chunks\<close> again on the file as the first call left
  it yields the same chunks.
\<close>

theorem chunks_reproduce_blob:
  assumes "blobs bs (reader_key (uf_file f)) = Some b" and "0 < c"
  shows "\<exists>cs f'. BlobstoreUploadedFile_chunks bs f c = Inr (cs, f') \<and>
           concat cs = b \<and>
           (\<forall>x \<in> set cs. x \<noteq> [] \<and> int (length x) \<le> c) \<and>
           reader_pos (uf_file f') = length b \<and>
           BlobReader_read bs (uf_file f') c = Inr ([], uf_file f') \<and>
           BlobstoreUploadedFile_chunks bs f' c = Inr (cs, f') \<and>
           (\<forall>p. BlobstoreUploadedFile_chunks bs (f\<lparr>uf_file := BlobReader_seek (uf_file f) p\<rparr>) c
                  = Inr (cs, f'))"
proof -
  let ?r0 = "BlobReader_seek (uf_file f) 0"
  let ?rn = "(uf_file f)\<lparr>reader_pos := length b\<rparr>"
  have k0: "blobs bs (reader_key ?r0) = Some b" and p0: "reader_pos ?r0 \<le> length b"
    using assms(1) by (simp_all add: BlobReader_seek_def)
  from chunks_loop_reads_rest [OF k0 assms(2) p0]
  obtain cs where cs: "chunks_loop bs ?r0 c = Inr (cs, ?r0\<lparr>reader_pos := length b\<rparr>)"
    and cat: "concat cs = b"
    and bound: "\<forall>x \<in> set cs. x \<noteq> [] \<and> int (length x) \<le> c"
    by (auto simp: BlobReader_seek_def)
  have rn: "?r0\<lparr>reader_pos := length b\<rparr> = ?rn"
    by (simp add: BlobReader_seek_def)
  let ?f' = "f\<lparr>uf_file := ?rn\<rparr>"
  have first: "BlobstoreUploadedFile_chunks bs f c = Inr (cs, ?f')"
    using cs rn by (simp add: BlobstoreUploadedFile_chunks_def)
  have again: "BlobstoreUploadedFile_chunks bs ?f' c = Inr (cs, ?f')"
    using cs rn by (simp add: BlobstoreUploadedFile_chunks_def seek_after_update)
  have anypos: "\<forall>p. BlobstoreUploadedFile_chunks bs (f\<lparr>uf_file := BlobReader_seek (uf_file f) p\<rparr>) c
                  = Inr (cs, ?f')"
    using cs rn by (simp add: BlobstoreUploadedFile_chunks_def seek_seek)
  have eof: "BlobReader_read bs (uf_file ?f') c = Inr ([], uf_file ?f')"
    using assms by (simp add: BlobReader_read_def)
  show ?thesis
    using first cat bound again anypos eof by (intro exI [of _ cs] exI [of _ ?f']) simp
qed

text \<open>Witness of C2: the blob \<open>hello\<close>, read two bytes at a time from a reader that
  stood at offset 3.\<close>

theorem chunks_reproduce_blob_witness:
  "blobs \<lparr>entities = map_of [], blobs = map_of [(BlobKey ''k'', ''hello'')]\<rparr> (BlobKey ''k'')
     = Some ''hello'' \<and>
   (\<exists>cs f'. BlobstoreUploadedFile_chunks
        \<lparr>entities = map_of [], blobs = map_of [(BlobKey ''k'', ''hello'')]\<rparr>
        \<lparr>uf_file = \<lparr>reader_key = BlobKey ''k'', reader_pos = 3\<rparr>, uf_name = ''a.txt'',
         uf_content_type = ''text/plain'', uf_size = 5, uf_charset = None,
         uf_blobstore_info = BlobInfo (BlobKey ''k'') None\<rparr> 2 = Inr (cs, f') \<and>
      concat cs = ''hello'')"
proof -
  let ?bs = "\<lparr>entities = map_of [], blobs = map_of [(BlobKey ''k'', ''hello'')]\<rparr>"
  let ?f = "\<lparr>uf_file = \<lparr>reader_key = BlobKey ''k'', reader_pos = 3\<rparr>, uf_name = ''a.txt'',
         uf_content_type = ''text/plain'', uf_size = 5, uf_charset = None,
         uf_blobstore_info = BlobInfo (BlobKey ''k'') None\<rparr>"
  have h1: "blobs ?bs (reader_key (uf_file ?f)) = Some ''hello''"
    by simp
  have h2: "(0::int) < 2"
    by simp
  have h1': "blobs ?bs (BlobKey ''k'') = Some ''hello''"
    by simp
  from chunks_reproduce_blob [OF h1 h2] h1' show ?thesis
    by blast
qed

section \<open>Response headers of \<^verbatim>\<open>serve_file\<close>\<close>

lemma set_header_clean:
  "\<not> has_newline h \<Longrightarrow> (case v of Str s \<Rightarrow> \<not> has_newline s | Num z \<Rightarrow> True) \<Longrightarrow>
   set_header r h v = Inr (r\<lparr>headers := (headers r)(h \<mapsto> v)\<rparr>)"
  by (cases v) (simp_all add: set_header_def)

lemma set_header_newline:
  "has_newline s \<Longrightarrow> set_header r h (Str s) = Inl BadHeaderError"
  by (simp add: set_header_def)

lemma header_names_clean:
  "\<not> has_newline BLOB_KEY_HEADER" "\<not> has_newline BLOB_RANGE_HEADER"
  "\<not> has_newline ''Accept-Ranges''" "\<not> has_newline ''Content-Disposition''"
  "\<not> has_newline ''Content-Length''" "\<not> has_newline ''bytes''"
  by (simp_all add: has_newline_def BLOB_KEY_HEADER_def BLOB_RANGE_HEADER_def)

lemma has_newline_Nil: "has_newline [] = False"
  by (simp add: has_newline_def)

lemma has_newline_Cons:
  "has_newline (c # s) = (c = CHR 0x0A \<or> c = CHR 0x0D \<or> has_newline s)"
  by (auto simp: has_newline_def)

text \<open>
  A handle whose \<^verbatim>\<open>blobstore_info\<close> attribute holds something else than a \<^verbatim>\<open>BlobInfo\<close>
  (\<^verbatim>\<open>None\<close>, as on a \<^verbatim>\<open>BlobstoreFile\<close> opened for a name without blob, or a \<^verbatim>\<open>BlobKey\<close>)
  passes the attribute test, and the call of \<^verbatim>\<open>key()\<close> raises \<^verbatim>\<open>AttributeError\<close>, where
  \<^verbatim>\<open>_save\<close> has a type test that raises \<^verbatim>\<open>ValueError\<close>.
\<close>

lemma serve_file_not_BlobInfo:
  "probe_blobstore_info file = Some v \<Longrightarrow> \<forall>bi. v \<noteq> BlobInfoVal bi \<Longrightarrow>
   serve_file req file save_as content_type = Inl AttributeError"
  by (cases v) (simp_all add: serve_file_def key_method_def)

lemma serve_file_blobstore_info_None:
  "serve_file \<lparr>META = map_of []\<rparr>
      \<lparr>file_attr = None, blobstore_info_attr = Some NoneVal, size_attr = None\<rparr>
      None (Some ''text/plain'') = Inl AttributeError"
  by (simp add: serve_file_def probe_blobstore_info_def key_method_def)

text \<open>
  C4, as the claim states it, says that every blob-backed handle gets a response. For
  a blob-backed handle and the display name \<open>a\<close>, line feed, \<open>b\<close> the assignment of
  \<open>Content-Disposition\<close> raises \<^verbatim>\<open>BadHeaderError\<close>.
\<close>

theorem serve_file_counterexample:
  "serve_file \<lparr>META = map_of []\<rparr>
      \<lparr>file_attr = None,
       blobstore_info_attr = Some (BlobInfoVal (BlobInfo (BlobKey ''k'') None)),
       size_attr = Some 100\<rparr>
      (Some [CHR ''a'', CHR 0x0A, CHR ''b'']) (Some ''text/plain'') = Inl BadHeaderError"
  by (simp add: serve_file_def probe_blobstore_info_def key_method_def HttpResponse_init_def
      set_header_def has_newline_def BLOB_KEY_HEADER_def)

text \<open>
  C4, amended. \<^verbatim>\<open>serve_file\<close> raises \<^verbatim>\<open>ValueError\<close> for every handle that has no
  \<^verbatim>\<open>blobstore_info\<close> attribute, neither on its \<^verbatim>\<open>file\<close> nor on itself. For every handle
  whose \<^verbatim>\<open>blobstore_info\<close> is a \<^verbatim>\<open>BlobInfo\<close>: when the blob's key, the request's range
  and the display name have no carriage return and no line feed, and the content type
  has none either, the response has the blob's key under \<open>BLOB_KEY_HEADER\<close> and
  \<open>Accept-Ranges: bytes\<close>; it has the request's \<open>HTTP_RANGE\<close> under \<open>BLOB_RANGE_HEADER\<close>
  exactly when the request has one, \<open>Content-Disposition: attachment; filename=<name>\<close>
  exactly when \<^verbatim>\<open>save_as\<close> is a name that is not empty, and the size under
  \<open>Content-Length\<close> exactly when the size is not \<^verbatim>\<open>None\<close>. When the key, the range or the
  display name has a carriage return or a line feed, \<^verbatim>\<open>serve_file\<close> raises
  \<^verbatim>\<open>BadHeaderError\<close>.
\<close>

theorem serve_file_headers:
  "(probe_blobstore_info file = None \<longrightarrow>
      serve_file req file save_as content_type = Inl ValueError) \<and>
   (probe_blobstore_info file = Some (BlobInfoVal bi) \<and> values_clean req bi save_as \<and>
    no_newline content_type \<longrightarrow>
      (\<exists>resp. serve_file req file save_as content_type = Inr resp \<and>
         resp_content_type resp = content_type \<and>
         headers resp BLOB_KEY_HEADER = Some (Str (str_of (info_key bi))) \<and>
         headers resp ''Accept-Ranges'' = Some (Str ''bytes'') \<and>
         headers resp BLOB_RANGE_HEADER = map_option Str (META req ''HTTP_RANGE'') \<and>
         headers resp ''Content-Disposition'' =
           (case save_as of
              None \<Rightarrow> None
            | Some n \<Rightarrow> if n \<noteq> [] then Some (Str (''attachment; filename='' @ n)) else None) \<and>
         headers resp ''Content-Length'' = map_option Num (size_attr file))) \<and>
   (probe_blobstore_info file = Some (BlobInfoVal bi) \<and> \<not> values_clean req bi save_as \<longrightarrow>
      serve_file req file save_as content_type = Inl BadHeaderError)"
proof (intro conjI impI)
  assume "probe_blobstore_info file = None"
  then show "serve_file req file save_as content_type = Inl ValueError"
    by (simp add: serve_file_def)
next
  assume a: "probe_blobstore_info file = Some (BlobInfoVal bi) \<and> values_clean req bi save_as \<and>
    no_newline content_type"
  then have bi: "probe_blobstore_info file = Some (BlobInfoVal bi)"
    and key: "\<not> has_newline (str_of (info_key bi))"
    and rng: "no_newline (META req ''HTTP_RANGE'')"
    and sv: "no_newline save_as"
    and ct: "no_newline content_type"
    by (simp_all add: values_clean_def)
  let ?r0 = "\<lparr>resp_content_type = content_type, headers = Map.empty\<rparr>"
  from ct have init: "HttpResponse_init content_type = Inr ?r0"
    by (cases content_type) (simp_all add: HttpResponse_init_def no_newline_def)
  define r1 where "r1 = ?r0\<lparr>headers := (headers ?r0)(BLOB_KEY_HEADER \<mapsto> Str (str_of (info_key bi)))\<rparr>"
  define r2 where "r2 = r1\<lparr>headers := (headers r1)(''Accept-Ranges'' \<mapsto> Str ''bytes'')\<rparr>"
  define r3 where "r3 = (case META req ''HTTP_RANGE'' of
      None \<Rightarrow> r2
    | Some http_range \<Rightarrow> r2\<lparr>headers := (headers r2)(BLOB_RANGE_HEADER \<mapsto> Str http_range)\<rparr>)"
  define r4 where "r4 = (case save_as of
      None \<Rightarrow> r3
    | Some n \<Rightarrow>
        if n \<noteq> []
        then r3\<lparr>headers := (headers r3)(''Content-Disposition'' \<mapsto> Str (''attachment; filename='' @ n))\<rparr>
        else r3)"
  define r5 where "r5 = (case size_attr file of
      None \<Rightarrow> r4
    | Some z \<Rightarrow> r4\<lparr>headers := (headers r4)(''Content-Length'' \<mapsto> Num z)\<rparr>)"
  have s1: "set_header ?r0 BLOB_KEY_HEADER (Str (str_of (info_key bi))) = Inr r1"
    unfolding r1_def using key by (simp add: set_header_clean header_names_clean)
  have s2: "set_header r1 ''Accept-Ranges'' (Str ''bytes'') = Inr r2"
    unfolding r2_def by (simp add: set_header_clean header_names_clean)
  have s3: "(case META req ''HTTP_RANGE'' of
              None \<Rightarrow> Inr r2
            | Some http_range \<Rightarrow> set_header r2 BLOB_RANGE_HEADER (Str http_range)) = Inr r3"
    unfolding r3_def using rng
    by (cases "META req ''HTTP_RANGE''")
       (simp_all add: no_newline_def set_header_clean header_names_clean)
  have s4: "(case save_as of
              None \<Rightarrow> Inr r3
            | Some n \<Rightarrow>
                if n \<noteq> []
                then set_header r3 ''Content-Disposition'' (Str (''attachment; filename='' @ n))
                else Inr r3) = Inr r4"
    unfolding r4_def using sv
    by (cases save_as)
       (simp_all add: no_newline_def set_header_clean header_names_clean has_newline_Nil has_newline_Cons)
  have s5: "(case size_attr file of
        None \<Rightarrow> Inr r4
      | Some z \<Rightarrow> set_header r4 ''Content-Length'' (Num z)) = Inr r5"
    unfolding r5_def
    by (cases "size_attr file") (simp_all add: set_header_clean header_names_clean)
  have served: "serve_file req file save_as content_type = Inr r5"
    unfolding serve_file_def by (simp only: bi key_method_def init s1 s2 s3 s4 s5
        option.case sum.case py_value.case BlobInfo.sel)
  have ctype: "resp_content_type r5 = content_type"
    by (simp add: r5_def r4_def r3_def r2_def r1_def split: option.splits)
  have h_key: "headers r5 BLOB_KEY_HEADER = Some (Str (str_of (info_key bi)))"
    by (simp add: r5_def r4_def r3_def r2_def r1_def BLOB_KEY_HEADER_def BLOB_RANGE_HEADER_def
        split: option.splits)
  have h_acc: "headers r5 ''Accept-Ranges'' = Some (Str ''bytes'')"
    by (simp add: r5_def r4_def r3_def r2_def r1_def BLOB_KEY_HEADER_def BLOB_RANGE_HEADER_def
        split: option.splits)
  have h_rng: "headers r5 BLOB_RANGE_HEADER = map_option Str (META req ''HTTP_RANGE'')"
    by (simp add: r5_def r4_def r3_def r2_def r1_def BLOB_KEY_HEADER_def BLOB_RANGE_HEADER_def
        split: option.splits)
  have h_disp: "headers r5 ''Content-Disposition'' =
           (case save_as of
              None \<Rightarrow> None
            | Some n \<Rightarrow> if n \<noteq> [] then Some (Str (''attachment; filename='' @ n)) else None)"
    by (simp add: r5_def r4_def r3_def r2_def r1_def BLOB_KEY_HEADER_def BLOB_RANGE_HEADER_def
        split: option.splits)
  have h_len: "headers r5 ''Content-Length'' = map_option Num (size_attr file)"
    by (simp add: r5_def r4_def r3_def r2_def r1_def BLOB_KEY_HEADER_def BLOB_RANGE_HEADER_def
        split: option.splits)
  show "\<exists>resp. serve_file req file save_as content_type = Inr resp \<and>
         resp_content_type resp = content_type \<and>
         headers resp BLOB_KEY_HEADER = Some (Str (str_of (info_key bi))) \<and>
         headers resp ''Accept-Ranges'' = Some (Str ''bytes'') \<and>
         headers resp BLOB_RANGE_HEADER = map_option Str (META req ''HTTP_RANGE'') \<and>
         headers resp ''Content-Disposition'' =
           (case save_as of
              None \<Rightarrow> None
            | Some n \<Rightarrow> if n \<noteq> [] then Some (Str (''attachment; filename='' @ n)) else None) \<and>
         headers resp ''Content-Length'' = map_option Num (size_attr file)"
    using served ctype h_key h_acc h_rng h_disp h_len by (intro exI [of _ r5]) (simp only: simp_thms)
next
  assume a: "probe_blobstore_info file = Some (BlobInfoVal bi) \<and> \<not> values_clean req bi save_as"
  then have bi: "probe_blobstore_info file = Some (BlobInfoVal bi)"
    and dirty: "has_newline (str_of (info_key bi)) \<or> \<not> no_newline (META req ''HTTP_RANGE'')
                \<or> \<not> no_newline save_as"
    by (auto simp: values_clean_def)
  show "serve_file req file save_as content_type = Inl BadHeaderError"
  proof (cases "HttpResponse_init content_type")
    case (Inl e)
    then have "e = BadHeaderError"
      by (auto simp: HttpResponse_init_def split: option.splits if_splits)
    with Inl bi show ?thesis
      by (simp add: serve_file_def key_method_def)
  next
    case (Inr r0)
    show ?thesis
    proof (cases "has_newline (str_of (info_key bi))")
      case True
      with bi Inr show ?thesis
        by (simp add: serve_file_def key_method_def set_header_newline)
    next
      case key: False
      show ?thesis
      proof (cases "no_newline (META req ''HTTP_RANGE'')")
        case False
        with bi Inr key show ?thesis
          by (auto simp: serve_file_def key_method_def set_header_clean header_names_clean
              set_header_newline no_newline_def split: option.splits)
      next
        case rng: True
        with dirty key have "\<not> no_newline save_as" by simp
        then obtain n where n: "save_as = Some n" "has_newline n"
          by (auto simp: no_newline_def split: option.splits)
        then have "n \<noteq> []" by (auto simp: has_newline_def)
        with bi Inr key rng n show ?thesis
          by (auto simp: serve_file_def key_method_def set_header_clean header_names_clean
              set_header_newline has_newline_Nil has_newline_Cons no_newline_def split: option.splits)
      qed
    qed
  qed
qed

text \<open>Witness of C4: a file without \<^verbatim>\<open>blobstore_info\<close>, and a blob-backed file of 100
  bytes requested with a range, once with the display name \<open>a.txt\<close> and once with a
  display name that has a line feed.\<close>

theorem serve_file_headers_witness:
  "serve_file \<lparr>META = map_of [(''HTTP_RANGE'', ''bytes=10-20'')]\<rparr>
      \<lparr>file_attr = None, blobstore_info_attr = None, size_attr = Some 100\<rparr>
      (Some ''a.txt'') (Some ''text/plain'') = Inl ValueError \<and>
   (\<exists>resp. serve_file \<lparr>META = map_of [(''HTTP_RANGE'', ''bytes=10-20'')]\<rparr>
      \<lparr>file_attr = None,
       blobstore_info_attr = Some (BlobInfoVal (BlobInfo (BlobKey ''k'') None)),
       size_attr = Some 100\<rparr>
      (Some ''a.txt'') (Some ''text/plain'') = Inr resp \<and>
      headers resp BLOB_KEY_HEADER = Some (Str ''k'') \<and>
      headers resp ''Accept-Ranges'' = Some (Str ''bytes'') \<and>
      headers resp BLOB_RANGE_HEADER = Some (Str ''bytes=10-20'') \<and>
      headers resp ''Content-Disposition'' = Some (Str ''attachment; filename=a.txt'') \<and>
      headers resp ''Content-Length'' = Some (Num 100)) \<and>
   serve_file \<lparr>META = map_of [(''HTTP_RANGE'', ''bytes=10-20'')]\<rparr>
      \<lparr>file_attr = None,
       blobstore_info_attr = Some (BlobInfoVal (BlobInfo (BlobKey ''k'') None)),
       size_attr = Some 100\<rparr>
      (Some [CHR ''a'', CHR 0x0A, CHR ''b'']) (Some ''text/plain'') = Inl BadHeaderError"
proof -
  let ?req = "\<lparr>META = map_of [(''HTTP_RANGE'', ''bytes=10-20'')]\<rparr>"
  let ?f0 = "\<lparr>file_attr = None, blobstore_info_attr = None, size_attr = Some 100\<rparr>"
  let ?bi = "BlobInfo (BlobKey ''k'') None"
  let ?f1 = "\<lparr>file_attr = None, blobstore_info_attr = Some (BlobInfoVal ?bi),
       size_attr = Some 100\<rparr>"
  let ?bad = "[CHR ''a'', CHR 0x0A, CHR ''b'']"
  have p0: "probe_blobstore_info ?f0 = None"
    by (simp add: probe_blobstore_info_def)
  have p1: "probe_blobstore_info ?f1 = Some (BlobInfoVal ?bi)"
    by (simp add: probe_blobstore_info_def)
  have clean: "values_clean ?req ?bi (Some ''a.txt'')" "no_newline (Some ''text/plain'')"
    by (simp_all add: values_clean_def no_newline_def has_newline_def)
  have dirty: "\<not> values_clean ?req ?bi (Some ?bad)"
    by (simp add: values_clean_def no_newline_def has_newline_def)
  from serve_file_headers [of ?f0 ?req "Some ''a.txt''" "Some ''text/plain''" ?bi] p0
  have first: "serve_file ?req ?f0 (Some ''a.txt'') (Some ''text/plain'') = Inl ValueError"
    by blast
  from serve_file_headers [of ?f1 ?req "Some ''a.txt''" "Some ''text/plain''" ?bi] p1 clean
  obtain resp where "serve_file ?req ?f1 (Some ''a.txt'') (Some ''text/plain'') = Inr resp"
    and "headers resp BLOB_KEY_HEADER = Some (Str (str_of (info_key ?bi)))"
    and "headers resp ''Accept-Ranges'' = Some (Str ''bytes'')"
    and "headers resp BLOB_RANGE_HEADER = map_option Str (META ?req ''HTTP_RANGE'')"
    and "headers resp ''Content-Disposition'' =
           (case Some ''a.txt'' of
              None \<Rightarrow> None
            | Some n \<Rightarrow> if n \<noteq> [] then Some (Str (''attachment; filename='' @ n)) else None)"
    and "headers resp ''Content-Length'' = map_option Num (size_attr ?f1)"
    by blast
  then have second: "\<exists>resp. serve_file ?req ?f1 (Some ''a.txt'') (Some ''text/plain'') = Inr resp \<and>
      headers resp BLOB_KEY_HEADER = Some (Str ''k'') \<and>
      headers resp ''Accept-Ranges'' = Some (Str ''bytes'') \<and>
      headers resp BLOB_RANGE_HEADER = Some (Str ''bytes=10-20'') \<and>
      headers resp ''Content-Disposition'' = Some (Str ''attachment; filename=a.txt'') \<and>
      headers resp ''Content-Length'' = Some (Num 100)"
    by (intro exI [of _ resp]) simp
  from serve_file_headers [of ?f1 ?req "Some ?bad" "Some ''text/plain''" ?bi] p1 dirty
  have third: "serve_file ?req ?f1 (Some ?bad) (Some ''text/plain'') = Inl BadHeaderError"
    by blast
  from first second third show ?thesis by blast
qed

section \<open>The loops of \<^verbatim>\<open>CloudStorage\<close>\<close>

lemma size_loop_Nil: "size_loop f [] = f"
  by (subst size_loop.simps) simp

lemma open_loop_Nil: "open_loop f [] file_data = (file_data, f)"
  by (subst open_loop.simps) simp

lemma size_loop_offset:
  "fr_offset f \<le> length (fr_data f) \<Longrightarrow> d \<noteq> [] \<Longrightarrow>
   fr_offset (size_loop f d) = length (fr_data f)"
proof (induction f d rule: size_loop.induct)
  case (1 f d)
  obtain d' f' where rd: "files_read f 1 = (d', f')"
    by (cases "files_read f 1")
  then have d': "d' = take 1 (drop (fr_offset f) (fr_data f))"
    and f': "f' = f\<lparr>fr_offset := fr_offset f + length d'\<rparr>"
    by (auto simp: files_read_def Let_def)
  have step: "size_loop f d = size_loop f' d'"
    using "1.prems"(2) rd by (subst size_loop.simps) simp
  show ?case
  proof (cases "d' = []")
    case True
    with d' "1.prems"(1) have "fr_offset f = length (fr_data f)" by auto
    with True f' step show ?thesis by (simp add: size_loop_Nil)
  next
    case False
    with d' have "fr_offset f < length (fr_data f)" by auto
    with d' f' have "fr_offset f' \<le> length (fr_data f')" by auto
    from "1.IH" [OF "1.prems"(2) rd [symmetric] this False] f' step
    show ?thesis by simp
  qed
qed

lemma CloudStorage_size_length:
  assumes "finalized fs (location cs @ name) = Some d"
  shows "CloudStorage_size cs fs name = Inr (int (length d))"
proof (cases d)
  case Nil
  with assms show ?thesis
    by (simp add: CloudStorage_size_def files_open_read_def files_read_def size_loop_Nil
        files_tell_def)
next
  case (Cons x xs)
  let ?f1 = "\<lparr>fr_data = d, fr_offset = 1\<rparr>"
  have "fr_offset (size_loop ?f1 [x]) = length (fr_data ?f1)"
    by (rule size_loop_offset) (simp_all add: Cons)
  with assms Cons show ?thesis
    by (simp add: CloudStorage_size_def files_open_read_def files_read_def files_tell_def)
qed

lemma CloudStorage_open_fails: "\<exists>e. CloudStorage_open cs fs name mode = Inl e"
  by (auto simp: CloudStorage_open_def ContentFile_init_def split: sum.splits prod.splits)

text \<open>
  C9. Saving content of 0 bytes under \<open>empty.txt\<close> returns the name and leaves the
  object finalized with no bytes; \<^verbatim>\<open>size\<close> then returns 0 and \<^verbatim>\<open>exists\<close> returns \<^verbatim>\<open>True\<close>.
  \<^verbatim>\<open>_open\<close> reads the object and then raises \<^verbatim>\<open>TypeError\<close>, since it hands a \<^verbatim>\<open>StringIO\<close>
  object to \<^verbatim>\<open>ContentFile\<close>: no handle, and no chunk sequence, is produced.
\<close>

theorem empty_object_scenario:
  "(case CloudStorage_save \<lparr>base_url = ''//b.commondatastorage.googleapis.com/'', location = ''/gs/b/''\<rparr>
           \<lparr>finalized = map_of [], writable = map_of []\<rparr> ''empty.txt'' (StringIO_init []) of
      Inl e \<Rightarrow> False
    | Inr (name, fs, content) \<Rightarrow>
        name = ''empty.txt'' \<and>
        finalized fs ''/gs/b/empty.txt'' = Some [] \<and>
        CloudStorage_size \<lparr>base_url = ''//b.commondatastorage.googleapis.com/'', location = ''/gs/b/''\<rparr>
          fs ''empty.txt'' = Inr 0 \<and>
        CloudStorage_exists \<lparr>base_url = ''//b.commondatastorage.googleapis.com/'', location = ''/gs/b/''\<rparr>
          fs ''empty.txt'' = Inr True \<and>
        CloudStorage_open \<lparr>base_url = ''//b.commondatastorage.googleapis.com/'', location = ''/gs/b/''\<rparr>
          fs ''empty.txt'' ''rb'' = Inl TypeError)"
  by (simp add: CloudStorage_save_def files_gs_create_def StringIO_read_def StringIO_init_def
      files_append_def files_finalize_def CloudStorage_size_def files_open_read_def
      files_read_def size_loop_Nil files_tell_def CloudStorage_exists_def CloudStorage_open_def
      open_loop_Nil ContentFile_init_def)

end
